theory Spec2Isabelle
  imports Complex_Main "HOL-Library.AList"
begin

section \<open>Values handled by the cost engine\<close>

text \<open>
  The cost engine (\<^verbatim>\<open>cost_engine.py\<close>) reads three kinds of data: the columns of the
  \<^verbatim>\<open>Estimate\<close>, \<^verbatim>\<open>MaterialItem\<close> and \<^verbatim>\<open>LaborItem\<close> rows (\<^verbatim>\<open>models.py\<close>), and the values that
  \<^verbatim>\<open>json.loads\<close> returns for the area records and the active bundles.

  Numbers: a Python \<^verbatim>\<open>float\<close> is modelled as a \<^typ>\<open>real\<close> and a Python \<^verbatim>\<open>int\<close> as an
  \<^typ>\<open>int\<close>. Arithmetic on floats is exact: the rounding error of binary floating point,
  infinities and NaN are outside this model. The conversion of an \<^verbatim>\<open>int\<close> to a \<^verbatim>\<open>float\<close>,
  which Python performs when it adds or multiplies the two, is modelled with its
  \<^verbatim>\<open>OverflowError\<close>.
\<close>

datatype json =
    JNull
  | JBool bool
  | JInt int
  | JFloat real
  | JStr string
  | JArr "json list"
  | JObj "(string \<times> json) list"

text \<open>
  \<open>JObj kvs\<close> is a decoded \<^verbatim>\<open>dict\<close>: the value of a key is its first binding in \<open>kvs\<close>.

  Exceptions carry their message, which is what \<^verbatim>\<open>str(e)\<close> returns.
\<close>

datatype py_exn =
    AttributeError string
  | TypeError string
  | OverflowError string
  | Exception string

fun str_exn :: "py_exn \<Rightarrow> string" where
  "str_exn (AttributeError msg) = msg"
| "str_exn (TypeError msg) = msg"
| "str_exn (OverflowError msg) = msg"
| "str_exn (Exception msg) = msg"

definition quote :: "string \<Rightarrow> string" where
  "quote s = CHR 0x27 # s @ [CHR 0x27]"

fun type_name :: "json \<Rightarrow> string" where
  "type_name JNull = ''NoneType''"
| "type_name (JBool b) = ''bool''"
| "type_name (JInt i) = ''int''"
| "type_name (JFloat r) = ''float''"
| "type_name (JStr s) = ''str''"
| "type_name (JArr xs) = ''list''"
| "type_name (JObj kvs) = ''dict''"

definition no_attribute :: "json \<Rightarrow> string \<Rightarrow> py_exn" where
  "no_attribute v attr =
     AttributeError (quote (type_name v) @ '' object has no attribute '' @ quote attr)"

text \<open>\<^verbatim>\<open>v.get(key, default)\<close>: only a \<^verbatim>\<open>dict\<close> has the method.\<close>

fun dict_get :: "json \<Rightarrow> string \<Rightarrow> json \<Rightarrow> py_exn + json" where
  "dict_get (JObj kvs) key dflt =
     Inr (case map_of kvs key of None \<Rightarrow> dflt | Some v \<Rightarrow> v)"
| "dict_get v key dflt = Inl (no_attribute v ''get'')"

text \<open>
  \<^verbatim>\<open>v.lower()\<close>: only a \<^verbatim>\<open>str\<close> has the method. Lowercasing is modelled on the ASCII
  letters; the result is only ever compared with the ASCII words \<^verbatim>\<open>exterior\<close> and
  \<^verbatim>\<open>utility\<close>.
\<close>

definition lower_char :: "char \<Rightarrow> char" where
  "lower_char c =
     (let n = (of_char c :: nat) in if 65 \<le> n \<and> n \<le> 90 then char_of (n + 32) else c)"

definition lower :: "string \<Rightarrow> string" where
  "lower s = map lower_char s"

fun str_lower :: "json \<Rightarrow> py_exn + string" where
  "str_lower (JStr s) = Inr (lower s)"
| "str_lower v = Inl (no_attribute v ''lower'')"

text \<open>Python numbers: \<^verbatim>\<open>bool\<close> is a subtype of \<^verbatim>\<open>int\<close>.\<close>

datatype pynum = PInt int | PFloat real

fun num_of :: "json \<Rightarrow> pynum option" where
  "num_of (JBool b) = Some (PInt (if b then 1 else 0))"
| "num_of (JInt i) = Some (PInt i)"
| "num_of (JFloat r) = Some (PFloat r)"
| "num_of v = None"

fun to_float :: "pynum \<Rightarrow> real" where
  "to_float (PInt i) = of_int i"
| "to_float (PFloat r) = r"

fun num_type_name :: "pynum \<Rightarrow> string" where
  "num_type_name (PInt i) = ''int''"
| "num_type_name (PFloat r) = ''float''"

text \<open>
  An \<^verbatim>\<open>int\<close> becomes a \<^verbatim>\<open>float\<close> by rounding to the nearest double, a tie going to the even
  one. The largest double is \<open>2 ^ 1024 - 2 ^ 971\<close>; an \<^verbatim>\<open>int\<close> whose magnitude is
  \<open>2 ^ 1024 - 2 ^ 970\<close> or more would round to \<open>2 ^ 1024\<close>, and the conversion raises.
\<close>

definition float_limit :: int where
  "float_limit = 2 ^ 1024 - 2 ^ 970"

definition int_to_float :: "int \<Rightarrow> py_exn + real" where
  "int_to_float i =
     (if \<bar>i\<bar> < float_limit then Inr (of_int i)
      else Inl (OverflowError ''int too large to convert to float''))"

fun as_float :: "pynum \<Rightarrow> py_exn + real" where
  "as_float (PInt i) = int_to_float i"
| "as_float (PFloat r) = Inr r"

text \<open>
  \<^verbatim>\<open>a + b\<close> on two numbers: exact on two \<^verbatim>\<open>int\<close>s, otherwise the \<^verbatim>\<open>int\<close> operand, if there is
  one, is converted and the result is a \<^verbatim>\<open>float\<close>.
\<close>

fun num_add :: "pynum \<Rightarrow> pynum \<Rightarrow> py_exn + pynum" where
  "num_add (PInt a) (PInt b) = Inr (PInt (a + b))"
| "num_add a b =
     (case as_float a of
        Inl e \<Rightarrow> Inl e
      | Inr x \<Rightarrow> (case as_float b of Inl e \<Rightarrow> Inl e | Inr y \<Rightarrow> Inr (PFloat (x + y))))"

text \<open>\<^verbatim>\<open>acc + v\<close> with a number on the left, as in \<^verbatim>\<open>sum(...)\<close>.\<close>

definition py_add :: "pynum \<Rightarrow> json \<Rightarrow> py_exn + pynum" where
  "py_add acc v =
     (case num_of v of
        Some n \<Rightarrow> num_add acc n
      | None \<Rightarrow> Inl (TypeError (''unsupported operand type(s) for +: ''
                  @ quote (num_type_name acc) @ '' and '' @ quote (type_name v))))"

text \<open>
  \<^verbatim>\<open>v * rate\<close> with a \<^verbatim>\<open>float\<close> on the right: a sequence cannot be multiplied, an \<^verbatim>\<open>int\<close> or
  a \<^verbatim>\<open>bool\<close> is converted first.
\<close>

fun py_mul_float :: "json \<Rightarrow> real \<Rightarrow> py_exn + real" where
  "py_mul_float (JStr s) rate =
     Inl (TypeError (''can't multiply sequence by non-int of type '' @ quote ''float''))"
| "py_mul_float (JArr xs) rate =
     Inl (TypeError (''can't multiply sequence by non-int of type '' @ quote ''float''))"
| "py_mul_float v rate =
     (case num_of v of
        Some n \<Rightarrow> (case as_float n of Inl e \<Rightarrow> Inl e | Inr x \<Rightarrow> Inr (x * rate))
      | None \<Rightarrow> Inl (TypeError (''unsupported operand type(s) for *: ''
                  @ quote (type_name v) @ '' and '' @ quote ''float'')))"

text \<open>
  \<^verbatim>\<open>x or default\<close> on a nullable \<^verbatim>\<open>Float\<close> column: \<^verbatim>\<open>None\<close> and \<^verbatim>\<open>0.0\<close> are both falsy.
\<close>

fun float_or :: "real option \<Rightarrow> real \<Rightarrow> real" where
  "float_or None dflt = dflt"
| "float_or (Some x) dflt = (if x = 0 then dflt else x)"

text \<open>\<^verbatim>\<open>s or default\<close> on a nullable \<^verbatim>\<open>String\<close> column: \<^verbatim>\<open>None\<close> and \<^verbatim>\<open>''\<close> are both falsy.\<close>

fun str_or :: "string option \<Rightarrow> string \<Rightarrow> string" where
  "str_or None dflt = dflt"
| "str_or (Some s) dflt = (if s = [] then dflt else s)"

text \<open>
  \<^verbatim>\<open>round(x, 2)\<close>: the closest multiple of \<open>1/100\<close>, a tie going to the even multiple.
\<close>

definition round2 :: "real \<Rightarrow> real" where
  "round2 x =
     (let y = x * 100; f = \<lfloor>y\<rfloor>; d = y - of_int f in
      of_int (if d < 1/2 then f else if 1/2 < d then f + 1 else if even f then f else f + 1)
        / 100)"

section \<open>The rows of \<^verbatim>\<open>models.py\<close>\<close>

text \<open>
  \<open>areas\<close> and \<open>active_bundles\<close> hold what \<^verbatim>\<open>get_areas()\<close> and \<^verbatim>\<open>get_active_bundles()\<close>
  return: the decoded list, empty when the column is unset. The elements of \<open>areas\<close> are
  the values that \<^verbatim>\<open>for area in areas\<close> visits, whatever their shape; the elements of
  \<open>active_bundles\<close> are whatever the list of bundle names holds. The four totals are
  nullable \<^verbatim>\<open>Float\<close> columns. The fields of the two line items carry a prefix, since both
  rows have a \<^verbatim>\<open>total_cost\<close> and a \<^verbatim>\<open>category\<close>.
\<close>

record estimate =
  est_id :: int
  areas :: "json list"
  active_bundles :: "json list"
  profit_percentage :: "real option"
  contingency_percentage :: "real option"
  subtotal :: "real option"
  profit_amount :: "real option"
  contingency_amount :: "real option"
  grand_total :: "real option"

record material_item =
  m_name :: string
  m_unit :: "string option"
  m_unit_cost :: "real option"
  m_quantity :: "real option"
  m_total_cost :: "real option"
  m_bundle :: "string option"
  m_category :: "string option"

record labor_item =
  l_task :: string
  l_hours :: "real option"
  l_hourly_rate :: "real option"
  l_total_cost :: "real option"
  l_category :: "string option"

section \<open>\<^verbatim>\<open>calculate_estimate_totals\<close>\<close>

text \<open>
  \<^verbatim>\<open>not material.bundle or material.bundle in active_bundles\<close>. The membership test compares
  the bundle, a \<^verbatim>\<open>str\<close>, with each element of the decoded list; only an equal \<^verbatim>\<open>str\<close>
  element matches.
\<close>

fun bundle_included :: "json list \<Rightarrow> string option \<Rightarrow> bool" where
  "bundle_included active None = True"
| "bundle_included active (Some b) = (b = [] \<or> JStr b \<in> set active)"

text \<open>Lines 12 to 17: the loop over the materials, with the running total.\<close>

fun material_loop :: "json list \<Rightarrow> real \<Rightarrow> material_item list \<Rightarrow> real" where
  "material_loop active material_total [] = material_total"
| "material_loop active material_total (material # materials) =
     material_loop active
       (if bundle_included active (m_bundle material)
        then material_total + float_or (m_total_cost material) 0
        else material_total)
       materials"

text \<open>Lines 20 to 25: the loop over the labor items.\<close>

fun labor_loop :: "real \<Rightarrow> labor_item list \<Rightarrow> real" where
  "labor_loop labor_total [] = labor_total"
| "labor_loop labor_total (labor # labor_items) =
     labor_loop (labor_total + float_or (l_total_cost labor) 0) labor_items"

text \<open>Line 29: \<^verbatim>\<open>sum(area.get('area_ft2', 0) for area in areas)\<close>, starting from the int 0.\<close>

fun total_area_sum :: "pynum \<Rightarrow> json list \<Rightarrow> py_exn + pynum" where
  "total_area_sum acc [] = Inr acc"
| "total_area_sum acc (area # rest) =
     (case dict_get area ''area_ft2'' (JInt 0) of
        Inl e \<Rightarrow> Inl e
      | Inr area_ft2 \<Rightarrow>
          (case py_add acc area_ft2 of
             Inl e \<Rightarrow> Inl e
           | Inr acc' \<Rightarrow> total_area_sum acc' rest))"

text \<open>Lines 38 to 43, on the lowercased category.\<close>

definition psf_rate :: "string \<Rightarrow> real" where
  "psf_rate category =
     (if category = ''exterior'' then 15
      else if category = ''utility'' then 25
      else 20)"

text \<open>Lines 32 to 45: the loop over the area records.\<close>

fun area_cost_loop :: "real \<Rightarrow> json list \<Rightarrow> py_exn + real" where
  "area_cost_loop area_cost [] = Inr area_cost"
| "area_cost_loop area_cost (area # rest) =
     (case dict_get area ''area_ft2'' (JInt 0) of
        Inl e \<Rightarrow> Inl e
      | Inr area_ft2 \<Rightarrow>
          (case dict_get area ''category'' (JStr ''Interior'') of
             Inl e \<Rightarrow> Inl e
           | Inr cat \<Rightarrow>
               (case str_lower cat of
                  Inl e \<Rightarrow> Inl e
                | Inr category \<Rightarrow>
                    (case py_mul_float area_ft2 (psf_rate category) of
                       Inl e \<Rightarrow> Inl e
                     | Inr c \<Rightarrow> area_cost_loop (area_cost + c) rest))))"

text \<open>The local variables of the function when it reaches line 61.\<close>

record totals_vars =
  v_material_total :: real
  v_labor_total :: real
  v_area_cost :: real
  v_subtotal :: real
  v_profit_amount :: real
  v_contingency_amount :: real
  v_grand_total :: real

text \<open>Lines 9 to 59: everything before the estimate is written.\<close>

definition compute_totals ::
  "estimate \<Rightarrow> material_item list \<Rightarrow> labor_item list \<Rightarrow> py_exn + totals_vars" where
  "compute_totals est materials labor_items =
     (let active = active_bundles est;
          material_total = material_loop active 0 materials;
          labor_total = labor_loop 0 labor_items
      in case total_area_sum (PInt 0) (areas est) of
           Inl e \<Rightarrow> Inl e
         | Inr total_area \<Rightarrow>
             (case area_cost_loop 0 (areas est) of
                Inl e \<Rightarrow> Inl e
              | Inr area_cost \<Rightarrow>
                  (let sub = material_total + labor_total + area_cost;
                       profit_pct = float_or (profit_percentage est) 15;
                       profit = sub * (profit_pct / 100);
                       contingency_pct = float_or (contingency_percentage est) 10;
                       contingency = (sub + profit) * (contingency_pct / 100);
                       grand = sub + profit + contingency
                   in Inr \<lparr>v_material_total = material_total,
                           v_labor_total = labor_total,
                           v_area_cost = area_cost,
                           v_subtotal = sub,
                           v_profit_amount = profit,
                           v_contingency_amount = contingency,
                           v_grand_total = grand\<rparr>)))"

text \<open>
  The whole function. It returns the estimate as the caller finds it afterwards, and
  either the exception raised at line 71 or nothing. The four assignments of lines 62 to
  65 are written one after the other, as in the source.
\<close>

definition calculate_estimate_totals ::
  "estimate \<Rightarrow> material_item list \<Rightarrow> labor_item list \<Rightarrow> estimate \<times> (py_exn + unit)" where
  "calculate_estimate_totals est materials labor_items =
     (case compute_totals est materials labor_items of
        Inl e \<Rightarrow>
          (est, Inl (Exception (''Failed to calculate estimate totals: '' @ str_exn e)))
      | Inr v \<Rightarrow>
          (let est1 = est\<lparr>subtotal := Some (round2 (v_subtotal v))\<rparr>;
               est2 = est1\<lparr>profit_amount := Some (round2 (v_profit_amount v))\<rparr>;
               est3 = est2\<lparr>contingency_amount := Some (round2 (v_contingency_amount v))\<rparr>;
               est4 = est3\<lparr>grand_total := Some (round2 (v_grand_total v))\<rparr>
           in (est4, Inr ())))"

section \<open>\<^verbatim>\<open>get_cost_breakdown\<close>\<close>

text \<open>
  The report is a \<^verbatim>\<open>dict\<close> of three groupings and the totals. A \<^verbatim>\<open>dict\<close> keeps its keys in
  the order of their first insertion, so each grouping is an association list, written
  with \<^const>\<open>AList.update\<close>: a new key goes to the end, an old key keeps its place and
  takes the new value.
\<close>

record material_entry =
  me_name :: string
  me_quantity :: "real option"
  me_unit :: "string option"
  me_unit_cost :: "real option"
  me_total_cost :: "real option"

record labor_entry =
  le_task :: string
  le_hours :: "real option"
  le_hourly_rate :: "real option"
  le_total_cost :: "real option"

record area_entry =
  ae_area_ft2 :: json
  ae_psf_rate :: real
  ae_total_cost :: real
  ae_category :: json

record totals =
  t_materials :: real
  t_labor :: real
  t_area_costs :: real
  t_subtotal :: "real option"
  t_profit :: "real option"
  t_contingency :: "real option"
  t_grand_total :: "real option"

text \<open>
  A key of \<^verbatim>\<open>breakdown['area_costs']\<close> is whatever \<^verbatim>\<open>area.get('room', 'Unknown')\<close> returns.
  Keys are kept up to Python's equality, under which \<^verbatim>\<open>True\<close>, \<^verbatim>\<open>1\<close> and \<^verbatim>\<open>1.0\<close> are one
  key; a \<^verbatim>\<open>list\<close> or a \<^verbatim>\<open>dict\<close> cannot be a key.
\<close>

datatype pykey = KNone | KNum real | KStr string

fun dict_key :: "json \<Rightarrow> py_exn + pykey" where
  "dict_key JNull = Inr KNone"
| "dict_key (JBool b) = Inr (KNum (if b then 1 else 0))"
| "dict_key (JInt i) = Inr (KNum (of_int i))"
| "dict_key (JFloat r) = Inr (KNum r)"
| "dict_key (JStr s) = Inr (KStr s)"
| "dict_key v = Inl (TypeError (''unhashable type: '' @ quote (type_name v)))"

record breakdown =
  b_materials :: "(string \<times> material_entry list) list"
  b_labor :: "(string \<times> labor_entry list) list"
  b_area_costs :: "(pykey \<times> area_entry) list"
  b_totals :: totals

text \<open>
  \<^verbatim>\<open>if k not in d: d[k] = []\<close> followed by \<^verbatim>\<open>d[k].append(x)\<close>.
\<close>

definition append_to_group :: "'k \<Rightarrow> 'v \<Rightarrow> ('k \<times> 'v list) list \<Rightarrow> ('k \<times> 'v list) list" where
  "append_to_group k x d =
     (let d' = (if k \<notin> fst ` set d then AList.update k [] d else d)
      in AList.update k ((case map_of d' k of None \<Rightarrow> [] | Some xs \<Rightarrow> xs) @ [x]) d')"

text \<open>Lines 94 to 108.\<close>

fun breakdown_materials :: "json list \<Rightarrow> breakdown \<Rightarrow> material_item list \<Rightarrow> breakdown" where
  "breakdown_materials active bd [] = bd"
| "breakdown_materials active bd (material # materials) =
     breakdown_materials active
       (if bundle_included active (m_bundle material)
        then bd\<lparr>b_materials :=
                  append_to_group (str_or (m_bundle material) ''Miscellaneous'')
                    \<lparr>me_name = m_name material,
                     me_quantity = m_quantity material,
                     me_unit = m_unit material,
                     me_unit_cost = m_unit_cost material,
                     me_total_cost = m_total_cost material\<rparr>
                    (b_materials bd),
                b_totals := (b_totals bd)
                  \<lparr>t_materials :=
                     t_materials (b_totals bd) + float_or (m_total_cost material) 0\<rparr>\<rparr>
        else bd)
       materials"

text \<open>Lines 111 to 123.\<close>

fun breakdown_labor :: "breakdown \<Rightarrow> labor_item list \<Rightarrow> breakdown" where
  "breakdown_labor bd [] = bd"
| "breakdown_labor bd (labor # labor_items) =
     breakdown_labor
       (bd\<lparr>b_labor :=
             append_to_group (str_or (l_category labor) ''General Labor'')
               \<lparr>le_task = l_task labor,
                le_hours = l_hours labor,
                le_hourly_rate = l_hourly_rate labor,
                le_total_cost = l_total_cost labor\<rparr>
               (b_labor bd),
           b_totals := (b_totals bd)
             \<lparr>t_labor := t_labor (b_totals bd) + float_or (l_total_cost labor) 0\<rparr>\<rparr>)
       labor_items"

text \<open>
  Lines 126 to 147. Nothing catches an exception here: the first one raised ends the
  function.
\<close>

fun breakdown_areas :: "breakdown \<Rightarrow> json list \<Rightarrow> py_exn + breakdown" where
  "breakdown_areas bd [] = Inr bd"
| "breakdown_areas bd (area # rest) =
     (case dict_get area ''area_ft2'' (JInt 0) of
        Inl e \<Rightarrow> Inl e
      | Inr area_ft2 \<Rightarrow>
     (case dict_get area ''category'' (JStr ''Interior'') of
        Inl e \<Rightarrow> Inl e
      | Inr category \<Rightarrow>
     (case dict_get area ''room'' (JStr ''Unknown'') of
        Inl e \<Rightarrow> Inl e
      | Inr room \<Rightarrow>
     (case str_lower category of
        Inl e \<Rightarrow> Inl e
      | Inr lowered \<Rightarrow>
     (case py_mul_float area_ft2 (psf_rate lowered) of
        Inl e \<Rightarrow> Inl e
      | Inr area_cost \<Rightarrow>
     (case dict_key room of
        Inl e \<Rightarrow> Inl e
      | Inr k \<Rightarrow>
          breakdown_areas
            (bd\<lparr>b_area_costs :=
                  AList.update k
                    \<lparr>ae_area_ft2 = area_ft2,
                     ae_psf_rate = psf_rate lowered,
                     ae_total_cost = area_cost,
                     ae_category = category\<rparr>
                    (b_area_costs bd),
                b_totals := (b_totals bd)
                  \<lparr>t_area_costs := t_area_costs (b_totals bd) + area_cost\<rparr>\<rparr>)
            rest))))))"

definition get_cost_breakdown ::
  "estimate \<Rightarrow> material_item list \<Rightarrow> labor_item list \<Rightarrow> py_exn + breakdown" where
  "get_cost_breakdown est materials labor_items =
     (let active = active_bundles est;
          bd0 = \<lparr>b_materials = [], b_labor = [], b_area_costs = [],
                 b_totals = \<lparr>t_materials = 0, t_labor = 0, t_area_costs = 0,
                             t_subtotal = subtotal est,
                             t_profit = profit_amount est,
                             t_contingency = contingency_amount est,
                             t_grand_total = grand_total est\<rparr>\<rparr>;
          bd1 = breakdown_materials active bd0 materials;
          bd2 = breakdown_labor bd1 labor_items
      in breakdown_areas bd2 (areas est))"

section \<open>The specification's words\<close>

text \<open>
  The definitions of this section follow the specification, not the source; the
  properties below compare them with the functions above.

  A missing cost counts as \<open>0.0\<close>.
\<close>

definition cost_or_zero :: "real option \<Rightarrow> real" where
  "cost_or_zero c = (case c of None \<Rightarrow> 0 | Some x \<Rightarrow> x)"

text \<open>The active-bundle set of an estimate: the names in its list of active bundles.\<close>

definition active_set :: "estimate \<Rightarrow> string set" where
  "active_set est = {b. JStr b \<in> set (active_bundles est)}"

text \<open>
  A material is included when its bundle is empty or absent, or when its bundle name is
  a member of the active-bundle set.
\<close>

definition spec_included :: "string set \<Rightarrow> material_item \<Rightarrow> bool" where
  "spec_included active m =
     (m_bundle m = None \<or> m_bundle m = Some [] \<or> m_bundle m \<in> Some ` active)"

definition spec_material_total :: "string set \<Rightarrow> material_item list \<Rightarrow> real" where
  "spec_material_total active ms =
     sum_list (map (\<lambda>m. cost_or_zero (m_total_cost m)) (filter (spec_included active) ms))"

text \<open>A percentage that is unset takes its default; one that is set is used as given.\<close>

definition spec_percentage :: "real option \<Rightarrow> real \<Rightarrow> real" where
  "spec_percentage p dflt = (case p of None \<Rightarrow> dflt | Some x \<Rightarrow> x)"

text \<open>The labor total is the sum over all labor items.\<close>

definition spec_labor_total :: "labor_item list \<Rightarrow> real" where
  "spec_labor_total ls = sum_list (map (\<lambda>l. cost_or_zero (l_total_cost l)) ls)"

text \<open>
  Case-insensitive match with a lowercase word: \<open>s\<close> is the word \<open>w\<close> with any of its
  letters capitalised.
\<close>

definition upper_char :: "char \<Rightarrow> char" where
  "upper_char c =
     (let n = (of_char c :: nat) in if 97 \<le> n \<and> n \<le> 122 then char_of (n - 32) else c)"

definition casing_of :: "string \<Rightarrow> string \<Rightarrow> bool" where
  "casing_of s w = list_all2 (\<lambda>x y. x = y \<or> x = upper_char y) s w"

definition lower_letter :: "char \<Rightarrow> bool" where
  "lower_letter c = (97 \<le> (of_char c :: nat) \<and> (of_char c :: nat) \<le> 122)"

text \<open>The rate table: exterior 15.0, utility 25.0, anything else 20.0.\<close>

definition spec_rate :: "string \<Rightarrow> real" where
  "spec_rate c =
     (if casing_of c ''exterior'' then 15 else if casing_of c ''utility'' then 25 else 20)"

text \<open>
  An area record is \<^verbatim>\<open>{room: string, category: string, area_ft2: number}\<close>, and each of
  its fields may be absent. \<open>area_field a k\<close> is field \<open>k\<close> of record \<open>a\<close>, if it has one.
\<close>

definition area_field :: "json \<Rightarrow> string \<Rightarrow> json option" where
  "area_field a k = (case a of JObj kvs \<Rightarrow> map_of kvs k | _ \<Rightarrow> None)"

fun is_dict :: "json \<Rightarrow> bool" where
  "is_dict (JObj kvs) = True"
| "is_dict v = False"

fun is_str :: "json \<Rightarrow> bool" where
  "is_str (JStr s) = True"
| "is_str v = False"

fun is_number :: "json \<Rightarrow> bool" where
  "is_number (JBool b) = True"
| "is_number (JInt i) = True"
| "is_number (JFloat r) = True"
| "is_number v = False"

fun is_hashable :: "json \<Rightarrow> bool" where
  "is_hashable (JArr xs) = False"
| "is_hashable (JObj kvs) = False"
| "is_hashable v = True"

text \<open>
  The records of the specification: a category that is a string or absent, an area that
  is a number or absent.
\<close>

definition typed_area :: "json \<Rightarrow> bool" where
  "typed_area a =
     (is_dict a
      \<and> (case area_field a ''category'' of None \<Rightarrow> True | Some c \<Rightarrow> is_str c)
      \<and> (case area_field a ''area_ft2'' of None \<Rightarrow> True | Some n \<Rightarrow> is_number n))"

text \<open>
  An area is in range when it is not an integer too large for a \<^verbatim>\<open>float\<close>. The records that
  can be priced are those of the specification whose area is in range.
\<close>

fun float_convertible :: "json \<Rightarrow> bool" where
  "float_convertible (JInt i) = (\<bar>i\<bar> < float_limit)"
| "float_convertible v = True"

definition area_in_range :: "json \<Rightarrow> bool" where
  "area_in_range a =
     (case area_field a ''area_ft2'' of None \<Rightarrow> True | Some n \<Rightarrow> float_convertible n)"

definition priced_area :: "json \<Rightarrow> bool" where
  "priced_area a = (typed_area a \<and> area_in_range a)"

text \<open>
  The aggregator also adds the areas up. The magnitudes of the integer areas of a list
  are bounded when their sum stays below the limit; then every integer met on the way is
  in range.
\<close>

definition int_area_size :: "json \<Rightarrow> int" where
  "int_area_size a =
     (case area_field a ''area_ft2'' of
        Some (JInt i) \<Rightarrow> \<bar>i\<bar>
      | Some (JBool b) \<Rightarrow> (if b then 1 else 0)
      | _ \<Rightarrow> 0)"

definition areas_bounded :: "json list \<Rightarrow> bool" where
  "areas_bounded as = (sum_list (map int_area_size as) < float_limit)"

text \<open>
  The magnitude of the accumulator of the sum: an integer accumulator is converted when
  the first \<^verbatim>\<open>float\<close> arrives.
\<close>

fun acc_size :: "pynum \<Rightarrow> int" where
  "acc_size (PInt k) = \<bar>k\<bar>"
| "acc_size (PFloat r) = 0"

text \<open>The category of a record, \<^verbatim>\<open>Interior\<close> when absent, and its area, 0 when absent.\<close>

definition record_category :: "json \<Rightarrow> string" where
  "record_category a =
     (case area_field a ''category'' of Some (JStr s) \<Rightarrow> s | _ \<Rightarrow> ''Interior'')"

definition record_area :: "json \<Rightarrow> real" where
  "record_area a =
     (case area_field a ''area_ft2'' of
        None \<Rightarrow> 0
      | Some n \<Rightarrow> (case num_of n of None \<Rightarrow> 0 | Some x \<Rightarrow> to_float x))"

text \<open>The cost of one record is its area times the rate of its category.\<close>

definition spec_record_cost :: "json \<Rightarrow> real" where
  "spec_record_cost a = record_area a * spec_rate (record_category a)"

definition spec_area_cost :: "json list \<Rightarrow> real" where
  "spec_area_cost as = sum_list (map spec_record_cost as)"

text \<open>A stored value has two decimal places when its hundredfold is a whole number.\<close>

definition two_decimals :: "real \<Rightarrow> bool" where
  "two_decimals x = (of_int \<lfloor>x * 100\<rfloor> = x * 100)"

section \<open>Example inputs\<close>

text \<open>
  The estimate of the specification's end-to-end scenario: one interior room of 50 square
  feet, the bundle \<^verbatim>\<open>Kitchen\<close> active, both percentages unset, all totals at their initial
  \<open>0.0\<close>.
\<close>

definition ex_estimate :: estimate where
  "ex_estimate =
     \<lparr>est_id = 1,
      areas = [JObj [(''room'', JStr ''Hall''), (''category'', JStr ''Interior''),
                     (''area_ft2'', JInt 50)]],
      active_bundles = [JStr ''Kitchen''],
      profit_percentage = None,
      contingency_percentage = None,
      subtotal = Some 0,
      profit_amount = Some 0,
      contingency_amount = Some 0,
      grand_total = Some 0\<rparr>"

definition ex_material :: "string option \<Rightarrow> real option \<Rightarrow> material_item" where
  "ex_material b c =
     \<lparr>m_name = ''item'', m_unit = None, m_unit_cost = None, m_quantity = None,
      m_total_cost = c, m_bundle = b, m_category = None\<rparr>"

definition ex_labor :: "real option \<Rightarrow> labor_item" where
  "ex_labor c =
     \<lparr>l_task = ''task'', l_hours = None, l_hourly_rate = None, l_total_cost = c,
      l_category = None\<rparr>"

definition ex_materials :: "material_item list" where
  "ex_materials = [ex_material (Some ''Kitchen'') (Some 500), ex_material None (Some 200)]"

text \<open>An estimate without bundles, with the given area records and percentages.\<close>

definition plain_estimate :: "json list \<Rightarrow> real option \<Rightarrow> real option \<Rightarrow> estimate" where
  "plain_estimate as pp cp =
     \<lparr>est_id = 2,
      areas = as,
      active_bundles = [],
      profit_percentage = pp,
      contingency_percentage = cp,
      subtotal = Some 0,
      profit_amount = Some 0,
      contingency_amount = Some 0,
      grand_total = Some 0\<rparr>"

text \<open>An area record with a category and an area only.\<close>

definition ex_area :: "string \<Rightarrow> int \<Rightarrow> json" where
  "ex_area c n = JObj [(''category'', JStr c), (''area_ft2'', JInt n)]"

text \<open>
  An estimate whose only area record has the category \<^verbatim>\<open>null\<close>, with totals stored by an
  earlier recomputation.
\<close>

definition bad_estimate :: estimate where
  "bad_estimate =
     \<lparr>est_id = 3,
      areas = [JObj [(''room'', JStr ''Hall''), (''category'', JNull), (''area_ft2'', JInt 50)]],
      active_bundles = [],
      profit_percentage = Some 15,
      contingency_percentage = Some 10,
      subtotal = Some 40,
      profit_amount = Some 6,
      contingency_amount = Some 4.6,
      grand_total = Some 50.6\<rparr>"

text \<open>An estimate whose two percentages have been set to 0, as the settings form allows.\<close>

definition zero_profit_estimate :: estimate where
  "zero_profit_estimate = plain_estimate [] (Some 0) (Some 0)"

text \<open>
  The records the reporter prices: those that can be priced and whose room, when present,
  can be a key of a \<^verbatim>\<open>dict\<close>.
\<close>

definition report_area :: "json \<Rightarrow> bool" where
  "report_area a =
     (priced_area a \<and> (case area_field a ''room'' of None \<Rightarrow> True | Some r \<Rightarrow> is_hashable r))"

text \<open>The key of a record in the report: its room, \<^verbatim>\<open>Unknown\<close> when absent.\<close>

definition room_key :: "json \<Rightarrow> py_exn + pykey" where
  "room_key a =
     (case area_field a ''room'' of None \<Rightarrow> Inr (KStr ''Unknown'') | Some r \<Rightarrow> dict_key r)"

text \<open>
  The entry of a record in the report: the area, the rate used, the computed cost and
  the category.
\<close>

definition spec_area_entry :: "json \<Rightarrow> area_entry" where
  "spec_area_entry a =
     \<lparr>ae_area_ft2 = (case area_field a ''area_ft2'' of None \<Rightarrow> JInt 0 | Some n \<Rightarrow> n),
      ae_psf_rate = spec_rate (record_category a),
      ae_total_cost = spec_record_cost a,
      ae_category = JStr (record_category a)\<rparr>"

text \<open>The entry that a report holds under key \<open>k\<close>: that of the last record with this key.\<close>

definition last_entry :: "pykey \<Rightarrow> json list \<Rightarrow> area_entry option" where
  "last_entry k as =
     (case filter (\<lambda>a. room_key a = Inr k) as of
        [] \<Rightarrow> None
      | x # xs \<Rightarrow> Some (spec_area_entry (last (x # xs))))"

text \<open>An estimate whose only area is an integer beyond the range of a \<^verbatim>\<open>float\<close>.\<close>

definition huge_estimate :: estimate where
  "huge_estimate = plain_estimate [ex_area ''Interior'' (10 ^ 309)] None None"

text \<open>
  An estimate with two integer areas that a \<^verbatim>\<open>float\<close> can hold one by one, but not added
  up, followed by a \<^verbatim>\<open>float\<close> area.
\<close>

definition wide_estimate :: estimate where
  "wide_estimate =
     plain_estimate
       [JObj [(''room'', JStr ''A''), (''area_ft2'', JInt (2 ^ 1023))],
        JObj [(''room'', JStr ''B''), (''area_ft2'', JInt (2 ^ 1023))],
        JObj [(''room'', JStr ''C''), (''area_ft2'', JFloat 1)]]
       None None"

text \<open>An estimate with two area records for the same room.\<close>

definition dup_estimate :: estimate where
  "dup_estimate =
     plain_estimate
       [JObj [(''room'', JStr ''Kitchen''), (''category'', JStr ''Interior''), (''area_ft2'', JInt 100)],
        JObj [(''room'', JStr ''Kitchen''), (''category'', JStr ''Exterior''), (''area_ft2'', JInt 50)],
        JObj [(''category'', JStr ''Utility''), (''area_ft2'', JInt 10)]]
       None None"

text \<open>The entries of a report, added up.\<close>

definition entries_sum :: "breakdown \<Rightarrow> real" where
  "entries_sum b = sum_list (map (\<lambda>(k, e). ae_total_cost e) (b_area_costs b))"

section \<open>Properties\<close>

lemma float_or_zero: "float_or c 0 = cost_or_zero c"
  by (cases c) (simp_all add: cost_or_zero_def)

lemma bundle_included_spec:
  "bundle_included (active_bundles est) (m_bundle m) = spec_included (active_set est) m"
  by (cases "m_bundle m") (auto simp: spec_included_def active_set_def)

lemma material_loop_spec:
  "material_loop (active_bundles est) t ms = t + spec_material_total (active_set est) ms"
  by (induction ms arbitrary: t)
     (simp_all add: spec_material_total_def float_or_zero bundle_included_spec)

lemma labor_loop_spec: "labor_loop t ls = t + spec_labor_total ls"
  by (induction ls arbitrary: t) (simp_all add: spec_labor_total_def float_or_zero)

lemma compute_totals_InrD:
  assumes "compute_totals est ms ls = Inr v"
  shows "\<exists>n a. total_area_sum (PInt 0) (areas est) = Inr n \<and> area_cost_loop 0 (areas est) = Inr a
     \<and> v = \<lparr>v_material_total = material_loop (active_bundles est) 0 ms,
            v_labor_total = labor_loop 0 ls,
            v_area_cost = a,
            v_subtotal = material_loop (active_bundles est) 0 ms + labor_loop 0 ls + a,
            v_profit_amount = (material_loop (active_bundles est) 0 ms + labor_loop 0 ls + a)
               * (float_or (profit_percentage est) 15 / 100),
            v_contingency_amount = ((material_loop (active_bundles est) 0 ms + labor_loop 0 ls + a)
               + (material_loop (active_bundles est) 0 ms + labor_loop 0 ls + a)
               * (float_or (profit_percentage est) 15 / 100)) * (float_or (contingency_percentage est) 10 / 100),
            v_grand_total = (material_loop (active_bundles est) 0 ms + labor_loop 0 ls + a)
               + (material_loop (active_bundles est) 0 ms + labor_loop 0 ls + a)
               * (float_or (profit_percentage est) 15 / 100)
               + ((material_loop (active_bundles est) 0 ms + labor_loop 0 ls + a)
               + (material_loop (active_bundles est) 0 ms + labor_loop 0 ls + a)
               * (float_or (profit_percentage est) 15 / 100)) * (float_or (contingency_percentage est) 10 / 100)\<rparr>"
  using assms unfolding compute_totals_def Let_def
  by (auto split: sum.splits)

lemma lower_char_eq_iff:
  assumes "lower_letter y"
  shows "lower_char x = y \<longleftrightarrow> x = y \<or> x = upper_char y"
proof -
  have ny: "97 \<le> (of_char y :: nat)" "(of_char y :: nat) \<le> 122"
    using assms by (simp_all add: lower_letter_def)
  show ?thesis
  proof (cases "65 \<le> (of_char x :: nat) \<and> (of_char x :: nat) \<le> 90")
    case True
    then have "lower_char x = y \<longleftrightarrow> (of_char x :: nat) + 32 = of_char y"
      by (simp add: lower_char_def char_of_eq_iff take_bit_eq_mod)
    also have "\<dots> \<longleftrightarrow> (of_char x :: nat) = of_char y - 32"
      using ny by auto
    also have "\<dots> \<longleftrightarrow> x = upper_char y"
      using ny by (auto simp: upper_char_def char_of_eq_iff take_bit_eq_mod dest: sym)
    finally show ?thesis using True ny by auto
  next
    case False
    then have l: "lower_char x = x" by (auto simp: lower_char_def)
    have "x \<noteq> upper_char y"
    proof
      assume "x = upper_char y"
      then have "(of_char x :: nat) = of_char y - 32"
        using ny by (simp add: upper_char_def)
      with False ny show False by auto
    qed
    with l show ?thesis by auto
  qed
qed

lemma lower_eq_iff_casing:
  "list_all lower_letter w \<Longrightarrow> lower s = w \<longleftrightarrow> casing_of s w"
proof (induction w arbitrary: s)
  case Nil
  then show ?case by (simp add: lower_def casing_of_def)
next
  case (Cons y w)
  show ?case
  proof (cases s)
    case Nil
    then show ?thesis by (simp add: lower_def casing_of_def)
  next
    case (Cons x s')
    from Cons.prems have y: "lower_letter y" and w: "list_all lower_letter w" by simp_all
    from Cons.IH[OF w, of s'] lower_char_eq_iff[OF y, of x] Cons
    show ?thesis by (simp add: lower_def casing_of_def)
  qed
qed

lemma ll_exterior: "list_all lower_letter ''exterior''"
  by (simp add: lower_letter_def)

lemma ll_utility: "list_all lower_letter ''utility''"
  by (simp add: lower_letter_def)

lemma psf_rate_lower: "psf_rate (lower c) = spec_rate c"
  by (simp add: psf_rate_def spec_rate_def lower_eq_iff_casing[OF ll_exterior]
      lower_eq_iff_casing[OF ll_utility])

lemma is_number_num_of: "is_number n \<longleftrightarrow> num_of n \<noteq> None"
  by (cases n) simp_all

lemma float_limit_pos: "1 < float_limit"
  by (simp add: float_limit_def)

lemma py_mul_float_number:
  "is_number n \<Longrightarrow> float_convertible n \<Longrightarrow>
     py_mul_float n r = Inr (to_float (the (num_of n)) * r)"
  using float_limit_pos by (cases n) (simp_all add: int_to_float_def)

lemma py_mul_float_Inr:
  "py_mul_float n r = Inr c \<Longrightarrow> is_number n \<and> float_convertible n"
  by (cases n) (simp_all add: int_to_float_def split: if_splits)

lemma str_lower_Inr: "str_lower c = Inr s \<Longrightarrow> is_str c"
  by (cases c) simp_all

lemma dict_get_Inr: "dict_get a k d = Inr v \<Longrightarrow> is_dict a"
  by (cases a) simp_all

lemma dict_get_field:
  "is_dict a \<Longrightarrow> dict_get a k d = Inr (case area_field a k of None \<Rightarrow> d | Some v \<Rightarrow> v)"
  by (cases a) (simp_all add: area_field_def)

lemma priced_area_mul:
  assumes "priced_area a"
  shows "py_mul_float (case area_field a ''area_ft2'' of None \<Rightarrow> JInt 0 | Some v \<Rightarrow> v) r
      = Inr (record_area a * r)"
proof (cases "area_field a ''area_ft2''")
  case None
  then show ?thesis
    using float_limit_pos by (simp add: record_area_def int_to_float_def)
next
  case (Some n)
  with assms have "is_number n" "float_convertible n"
    by (simp_all add: priced_area_def typed_area_def area_in_range_def)
  with Some show ?thesis
    by (auto simp: record_area_def py_mul_float_number is_number_num_of)
qed

lemma priced_area_category:
  assumes "typed_area a"
  shows "dict_get a ''category'' (JStr ''Interior'') = Inr (JStr (record_category a))"
proof -
  from assms have d: "is_dict a"
    by (simp add: typed_area_def)
  from assms
  have "(case area_field a ''category'' of None \<Rightarrow> JStr ''Interior'' | Some v \<Rightarrow> v)
      = JStr (record_category a)"
    by (cases "area_field a ''category''"; cases "the (area_field a ''category'')")
      (auto simp: record_category_def typed_area_def)
  then show ?thesis
    by (simp add: dict_get_field[OF d])
qed

lemma priced_area_step:
  assumes "priced_area a"
  shows "area_cost_loop t (a # rest) = area_cost_loop (t + spec_record_cost a) rest"
proof -
  from assms have ta: "typed_area a"
    by (simp add: priced_area_def)
  then have d: "is_dict a"
    by (simp add: typed_area_def)
  have g1: "dict_get a ''area_ft2'' (JInt 0)
      = Inr (case area_field a ''area_ft2'' of None \<Rightarrow> JInt 0 | Some v \<Rightarrow> v)"
    by (simp add: dict_get_field[OF d])
  show ?thesis
    by (simp add: g1 priced_area_category[OF ta] priced_area_mul[OF assms]
        spec_record_cost_def psf_rate_lower)
qed

lemma area_cost_loop_priced:
  "list_all priced_area as \<Longrightarrow> area_cost_loop t as = Inr (t + spec_area_cost as)"
  by (induction as arbitrary: t)
     (simp_all add: priced_area_step spec_area_cost_def del: area_cost_loop.simps(2))

lemma area_cost_loop_Inr_priced:
  "area_cost_loop t as = Inr r \<Longrightarrow> list_all priced_area as"
proof (induction as arbitrary: t)
  case Nil
  then show ?case
    by simp
next
  case (Cons a as)
  from Cons.prems obtain n c s x where
    g1: "dict_get a ''area_ft2'' (JInt 0) = Inr n" and
    g2: "dict_get a ''category'' (JStr ''Interior'') = Inr c" and
    g3: "str_lower c = Inr s" and
    g4: "py_mul_float n (psf_rate s) = Inr x" and
    g5: "area_cost_loop (t + x) as = Inr r"
    by (auto split: sum.splits)
  from g1 have d: "is_dict a"
    by (rule dict_get_Inr)
  from g1 g2 have "n = (case area_field a ''area_ft2'' of None \<Rightarrow> JInt 0 | Some v \<Rightarrow> v)"
    "c = (case area_field a ''category'' of None \<Rightarrow> JStr ''Interior'' | Some v \<Rightarrow> v)"
    by (simp_all add: dict_get_field[OF d])
  with str_lower_Inr[OF g3] py_mul_float_Inr[OF g4] d have "priced_area a"
    by (auto simp: priced_area_def typed_area_def area_in_range_def split: option.splits)
  with Cons.IH[OF g5] show ?case
    by simp
qed

lemma int_area_size_nonneg: "0 \<le> int_area_size a"
  by (simp add: int_area_size_def split: option.splits json.splits)

lemma sum_int_area_size_nonneg: "0 \<le> sum_list (map int_area_size as)"
  by (induction as) (simp_all add: int_area_size_nonneg)

lemma py_add_bounded:
  assumes "case v of None \<Rightarrow> True | Some n \<Rightarrow> is_number n"
    and "acc_size acc + (case v of Some (JInt i) \<Rightarrow> \<bar>i\<bar>
            | Some (JBool b) \<Rightarrow> (if b then 1 else 0) | _ \<Rightarrow> 0) + rest < float_limit"
    and "0 \<le> rest"
  shows "\<exists>acc'. py_add acc (case v of None \<Rightarrow> JInt 0 | Some n \<Rightarrow> n) = Inr acc'
           \<and> acc_size acc' + rest < float_limit"
proof (cases v)
  case None
  with assms float_limit_pos show ?thesis
    by (cases acc) (auto simp: py_add_def int_to_float_def)
next
  case (Some n)
  with assms float_limit_pos show ?thesis
    by (cases acc; cases n) (auto simp: py_add_def int_to_float_def split: if_splits)
qed

lemma total_area_sum_bounded:
  "list_all typed_area as \<Longrightarrow>
   acc_size acc + sum_list (map int_area_size as) < float_limit \<Longrightarrow>
   \<exists>n. total_area_sum acc as = Inr n"
proof (induction as arbitrary: acc)
  case Nil
  then show ?case
    by simp
next
  case (Cons a as)
  then have ta: "typed_area a" and tas: "list_all typed_area as"
    by simp_all
  from ta have d: "is_dict a"
    by (simp add: typed_area_def)
  from ta have n: "case area_field a ''area_ft2'' of None \<Rightarrow> True | Some n \<Rightarrow> is_number n"
    by (simp add: typed_area_def)
  have e: "(case area_field a ''area_ft2'' of Some (JInt i) \<Rightarrow> \<bar>i\<bar>
            | Some (JBool b) \<Rightarrow> (if b then 1 else 0) | _ \<Rightarrow> 0) = int_area_size a"
    by (simp add: int_area_size_def)
  have b: "acc_size acc + (case area_field a ''area_ft2'' of Some (JInt i) \<Rightarrow> \<bar>i\<bar>
            | Some (JBool b) \<Rightarrow> (if b then 1 else 0) | _ \<Rightarrow> 0)
          + sum_list (map int_area_size as) < float_limit"
    unfolding e using Cons.prems(2) by simp
  from py_add_bounded[OF n b sum_int_area_size_nonneg] obtain acc' where
    "py_add acc (case area_field a ''area_ft2'' of None \<Rightarrow> JInt 0 | Some n \<Rightarrow> n) = Inr acc'"
    "acc_size acc' + sum_list (map int_area_size as) < float_limit"
    by blast
  with Cons.IH[OF tas, of acc'] d show ?case
    by (simp add: dict_get_field)
qed

lemma areas_bounded_in_range:
  "areas_bounded as \<Longrightarrow> list_all area_in_range as"
proof (induction as)
  case Nil
  then show ?case
    by simp
next
  case (Cons a as)
  from Cons.prems sum_int_area_size_nonneg[of as] int_area_size_nonneg[of a]
  have 1: "int_area_size a < float_limit" and 2: "areas_bounded as"
    by (simp_all add: areas_bounded_def)
  from 1 have "area_in_range a"
    by (auto simp: area_in_range_def int_area_size_def split: option.splits json.splits)
  with Cons.IH[OF 2] show ?case
    by simp
qed

lemma typed_bounded_priced:
  "list_all typed_area as \<Longrightarrow> areas_bounded as \<Longrightarrow> list_all priced_area as"
  using areas_bounded_in_range[of as] by (simp add: list_all_iff priced_area_def)

lemma compute_totals_succeeds:
  assumes "list_all typed_area (areas est)" and "areas_bounded (areas est)"
  shows "\<exists>v. compute_totals est ms ls = Inr v"
proof -
  from assms(2) have "acc_size (PInt 0) + sum_list (map int_area_size (areas est)) < float_limit"
    by (simp add: areas_bounded_def)
  from total_area_sum_bounded[OF assms(1) this]
    area_cost_loop_priced[OF typed_bounded_priced[OF assms], of 0]
  show ?thesis
    by (auto simp: compute_totals_def Let_def)
qed

lemma compute_totals_Inr_priced:
  assumes "compute_totals est ms ls = Inr v"
  shows "list_all priced_area (areas est)"
  using compute_totals_InrD[OF assms] by (auto dest: area_cost_loop_Inr_priced)

subsection \<open>Evaluation on concrete inputs\<close>

lemma char_of_eq_simp:
  "char_of (n::nat) = c \<longleftrightarrow> n mod 256 = of_char c"
  by (simp add: char_of_eq_iff take_bit_eq_mod)

lemma eq_char_of_simp:
  "c = char_of (n::nat) \<longleftrightarrow> n mod 256 = of_char c"
  using char_of_eq_simp[of n c] by auto

lemmas eval_code =
  compute_totals_def py_add_def int_to_float_def float_limit_def lower_def lower_char_def
  psf_rate_def char_of_eq_simp

lemmas eval_spec =
  spec_material_total_def spec_included_def active_set_def cost_or_zero_def
  spec_labor_total_def spec_area_cost_def spec_record_cost_def record_area_def
  record_category_def area_field_def spec_rate_def casing_of_def upper_char_def
  eq_char_of_simp typed_area_def priced_area_def area_in_range_def areas_bounded_def
  int_area_size_def float_limit_def

lemmas eval_ex =
  ex_estimate_def ex_material_def ex_labor_def ex_materials_def plain_estimate_def
  ex_area_def

subsection \<open>The material total\<close>

text \<open>
  Claim C1. Whenever the recomputation reaches its result, the material total is the sum
  of the null-coalesced \<^verbatim>\<open>total_cost\<close> over exactly the materials whose bundle is empty or
  absent, or whose bundle name is in the estimate's active-bundle set. A material with
  an empty bundle is therefore counted even when the active set is empty, and a material
  with a non-empty bundle outside the active set is left out.
\<close>

theorem material_total_inclusion:
  assumes "compute_totals est materials labor_items = Inr v"
  shows "v_material_total v = spec_material_total (active_set est) materials"
  using compute_totals_InrD[OF assms] by (auto simp: material_loop_spec)

text \<open>
  With \<^verbatim>\<open>Kitchen\<close> active both example materials count (500 + 200); with no active bundle
  only the one without a bundle does.
\<close>

theorem material_total_inclusion_witness:
  "(\<exists>v. compute_totals ex_estimate ex_materials [] = Inr v \<and> v_material_total v = 700)
   \<and> (\<exists>v. compute_totals (ex_estimate\<lparr>active_bundles := []\<rparr>) ex_materials [] = Inr v
         \<and> v_material_total v = 200)"
proof -
  have ok: "list_all typed_area (areas ex_estimate)" "areas_bounded (areas ex_estimate)"
    by (simp_all add: eval_ex eval_spec)
  from ok obtain v where v: "compute_totals ex_estimate ex_materials [] = Inr v"
    using compute_totals_succeeds[of ex_estimate ex_materials "[]"] by auto
  from ok obtain w
    where w: "compute_totals (ex_estimate\<lparr>active_bundles := []\<rparr>) ex_materials [] = Inr w"
    using compute_totals_succeeds[of "ex_estimate\<lparr>active_bundles := []\<rparr>" ex_materials "[]"]
    by auto
  have "spec_material_total (active_set ex_estimate) ex_materials = 700"
    by (simp add: eval_ex eval_spec)
  with material_total_inclusion[OF v] have v7: "v_material_total v = 700"
    by simp
  have "spec_material_total (active_set (ex_estimate\<lparr>active_bundles := []\<rparr>)) ex_materials = 200"
    by (simp add: eval_ex eval_spec)
  with material_total_inclusion[OF w] have w2: "v_material_total w = 200"
    by simp
  from v v7 w w2 show ?thesis
    by blast
qed

subsection \<open>The layers of the total\<close>

lemma compute_totals_area_cost:
  assumes "compute_totals est ms ls = Inr v"
  shows "v_area_cost v = spec_area_cost (areas est)"
proof -
  from assms have t: "list_all priced_area (areas est)"
    by (rule compute_totals_Inr_priced)
  from compute_totals_InrD[OF assms] area_cost_loop_priced[OF t, of 0]
  show ?thesis
    by auto
qed

lemma float_or_spec_percentage:
  "p \<noteq> Some 0 \<Longrightarrow> float_or p dflt = spec_percentage p dflt"
  by (cases p) (simp_all add: spec_percentage_def)

text \<open>
  Claim C2. Whenever the recomputation reaches its result, for an estimate whose
  percentages are unset or set to a value other than 0: the labor total is the sum over
  all labor items, with no bundle filter; the subtotal is the material total plus the
  labor total plus the area cost; the profit amount is the subtotal times the estimate's
  profit percentage over 100; the contingency amount is the subtotal plus the profit
  amount, times the estimate's contingency percentage over 100; the grand total is the
  sum of the three. An unset percentage counts as its default, 15.0 or 10.0. (What the
  function does with a percentage of 0 is the subject of claim C4.)
\<close>

theorem totals_layering:
  assumes "compute_totals est materials labor_items = Inr v"
    and "profit_percentage est \<noteq> Some 0"
    and "contingency_percentage est \<noteq> Some 0"
  shows "v_labor_total v = spec_labor_total labor_items
       \<and> v_subtotal v = v_material_total v + v_labor_total v + v_area_cost v
       \<and> v_subtotal v =
           spec_material_total (active_set est) materials + spec_labor_total labor_items
             + spec_area_cost (areas est)
       \<and> v_profit_amount v =
           v_subtotal v * (spec_percentage (profit_percentage est) 15 / 100)
       \<and> v_contingency_amount v =
           (v_subtotal v + v_profit_amount v)
             * (spec_percentage (contingency_percentage est) 10 / 100)
       \<and> v_grand_total v = v_subtotal v + v_profit_amount v + v_contingency_amount v"
proof -
  from compute_totals_InrD[OF assms(1)] compute_totals_area_cost[OF assms(1)]
  have "v_labor_total v = spec_labor_total labor_items"
    "v_material_total v = spec_material_total (active_set est) materials"
    "v_area_cost v = spec_area_cost (areas est)"
    "v_subtotal v = v_material_total v + v_labor_total v + v_area_cost v"
    "v_profit_amount v = v_subtotal v * (float_or (profit_percentage est) 15 / 100)"
    "v_contingency_amount v =
       (v_subtotal v + v_profit_amount v) * (float_or (contingency_percentage est) 10 / 100)"
    "v_grand_total v = v_subtotal v + v_profit_amount v + v_contingency_amount v"
    by (auto simp: labor_loop_spec material_loop_spec)
  then show ?thesis
    by (simp add: float_or_spec_percentage[OF assms(2)] float_or_spec_percentage[OF assms(3)])
qed

text \<open>
  A subtotal of 1000.00 with profit 15 and contingency 10 gives 150.00, 115.00 and
  1265.00. The end-to-end scenario (materials 700.00, labor 300.00, area cost 1000.00)
  gives 400.00, 120.00 and 2520.00 with profit 20 and contingency 5, and 300.00, 230.00
  and 2530.00 with both percentages unset.
\<close>

theorem totals_layering_witness:
  "(\<exists>v. compute_totals (plain_estimate [] (Some 15) (Some 10)) [] [ex_labor (Some 1000)] = Inr v
      \<and> v_subtotal v = 1000 \<and> v_profit_amount v = 150 \<and> v_contingency_amount v = 115
      \<and> v_grand_total v = 1265)
   \<and> (\<exists>v. compute_totals
             (ex_estimate\<lparr>profit_percentage := Some 20, contingency_percentage := Some 5\<rparr>)
             ex_materials [ex_labor (Some 300)] = Inr v
      \<and> v_labor_total v = 300 \<and> v_subtotal v = 2000 \<and> v_profit_amount v = 400
      \<and> v_contingency_amount v = 120 \<and> v_grand_total v = 2520)
   \<and> (\<exists>v. compute_totals ex_estimate ex_materials [ex_labor (Some 300)] = Inr v
      \<and> v_labor_total v = 300 \<and> v_subtotal v = 2000 \<and> v_profit_amount v = 300
      \<and> v_contingency_amount v = 230 \<and> v_grand_total v = 2530)"
proof -
  let ?e1 = "plain_estimate [] (Some 15) (Some 10)"
  let ?e2 = "ex_estimate\<lparr>profit_percentage := Some 20, contingency_percentage := Some 5\<rparr>"
  have ok1: "list_all typed_area (areas ?e1)" "areas_bounded (areas ?e1)"
    and ok2: "list_all typed_area (areas ?e2)" "areas_bounded (areas ?e2)"
    and ok3: "list_all typed_area (areas ex_estimate)" "areas_bounded (areas ex_estimate)"
    by (simp_all add: eval_ex eval_spec)
  from compute_totals_succeeds[OF ok1] obtain v1
    where v1: "compute_totals ?e1 [] [ex_labor (Some 1000)] = Inr v1"
    by blast
  from compute_totals_succeeds[OF ok2] obtain v2
    where v2: "compute_totals ?e2 ex_materials [ex_labor (Some 300)] = Inr v2"
    by blast
  from compute_totals_succeeds[OF ok3] obtain v3
    where v3: "compute_totals ex_estimate ex_materials [ex_labor (Some 300)] = Inr v3"
    by blast
  have p1: "profit_percentage ?e1 \<noteq> Some 0" "contingency_percentage ?e1 \<noteq> Some 0"
    and p2: "profit_percentage ?e2 \<noteq> Some 0" "contingency_percentage ?e2 \<noteq> Some 0"
    and p3: "profit_percentage ex_estimate \<noteq> Some 0"
      "contingency_percentage ex_estimate \<noteq> Some 0"
    by (simp_all add: eval_ex)
  have s1: "spec_material_total (active_set ?e1) [] = 0"
    "spec_labor_total [ex_labor (Some 1000)] = 1000" "spec_area_cost (areas ?e1) = 0"
    "spec_percentage (profit_percentage ?e1) 15 = 15"
    "spec_percentage (contingency_percentage ?e1) 10 = 10"
    by (simp_all add: eval_ex eval_spec spec_percentage_def)
  have s2: "spec_material_total (active_set ?e2) ex_materials = 700"
    "spec_labor_total [ex_labor (Some 300)] = 300" "spec_area_cost (areas ?e2) = 1000"
    "spec_percentage (profit_percentage ?e2) 15 = 20"
    "spec_percentage (contingency_percentage ?e2) 10 = 5"
    by (simp_all add: eval_ex eval_spec spec_percentage_def)
  have s3: "spec_material_total (active_set ex_estimate) ex_materials = 700"
    "spec_area_cost (areas ex_estimate) = 1000"
    "spec_percentage (profit_percentage ex_estimate) 15 = 15"
    "spec_percentage (contingency_percentage ex_estimate) 10 = 10"
    by (simp_all add: eval_ex eval_spec spec_percentage_def)
  from totals_layering[OF v1 p1] s1
  have r1: "v_subtotal v1 = 1000 \<and> v_profit_amount v1 = 150 \<and> v_contingency_amount v1 = 115
      \<and> v_grand_total v1 = 1265"
    by simp
  from totals_layering[OF v2 p2] s2
  have r2: "v_labor_total v2 = 300 \<and> v_subtotal v2 = 2000 \<and> v_profit_amount v2 = 400
      \<and> v_contingency_amount v2 = 120 \<and> v_grand_total v2 = 2520"
    by simp
  from totals_layering[OF v3 p3] s2(2) s3
  have r3: "v_labor_total v3 = 300 \<and> v_subtotal v3 = 2000 \<and> v_profit_amount v3 = 300
      \<and> v_contingency_amount v3 = 230 \<and> v_grand_total v3 = 2530"
    by simp
  from v1 r1 v2 r2 v3 r3 show ?thesis
    by blast
qed

subsection \<open>The area cost\<close>

text \<open>
  Claim C3. For area records whose category is a string or absent and whose area is a
  number or absent, the magnitudes of the integer areas adding up to less than the
  largest \<^verbatim>\<open>float\<close>, the recomputation reaches its result and its area cost is the sum,
  over all records, of the area times the rate of the category: 15.0 for \<^verbatim>\<open>exterior\<close> and
  25.0 for \<^verbatim>\<open>utility\<close> in any casing, 20.0 for anything else, an absent category counting
  as \<^verbatim>\<open>Interior\<close>. An empty list costs 0.
\<close>

theorem area_cost_by_category:
  assumes "list_all typed_area (areas est)" and "areas_bounded (areas est)"
  shows "\<exists>v. compute_totals est materials labor_items = Inr v
           \<and> v_area_cost v = spec_area_cost (areas est)"
  using compute_totals_succeeds[OF assms, of materials labor_items]
    compute_totals_area_cost[of est materials labor_items]
  by blast

lemma ex_area_typed: "typed_area (ex_area c n)"
  by (simp add: ex_area_def typed_area_def area_field_def)

lemma ex_area_bounded: "areas_bounded [ex_area c 100]"
  by (simp add: ex_area_def areas_bounded_def int_area_size_def area_field_def float_limit_def)

lemma ex_area_cost:
  "spec_area_cost [ex_area c n] = of_int n * spec_rate c"
  by (simp add: ex_area_def spec_area_cost_def spec_record_cost_def record_area_def
      record_category_def area_field_def)

text \<open>
  One record of 100 square feet: 1500.00 for \<^verbatim>\<open>Exterior\<close> in two casings, 2500.00 for
  \<^verbatim>\<open>Utility\<close>, 2000.00 for \<^verbatim>\<open>Interior\<close>, for an unrecognised category and for an absent one.
\<close>

theorem area_cost_by_category_witness:
  "(\<exists>v. compute_totals (plain_estimate [ex_area ''Exterior'' 100] None None) [] [] = Inr v
        \<and> v_area_cost v = 1500)
   \<and> (\<exists>v. compute_totals (plain_estimate [ex_area ''eXTERIOR'' 100] None None) [] [] = Inr v
        \<and> v_area_cost v = 1500)
   \<and> (\<exists>v. compute_totals (plain_estimate [ex_area ''Utility'' 100] None None) [] [] = Inr v
        \<and> v_area_cost v = 2500)
   \<and> (\<exists>v. compute_totals (plain_estimate [ex_area ''Interior'' 100] None None) [] [] = Inr v
        \<and> v_area_cost v = 2000)
   \<and> (\<exists>v. compute_totals (plain_estimate [ex_area ''Garage'' 100] None None) [] [] = Inr v
        \<and> v_area_cost v = 2000)
   \<and> (\<exists>v. compute_totals (plain_estimate [JObj [(''area_ft2'', JInt 100)]] None None) [] [] = Inr v
        \<and> v_area_cost v = 2000)
   \<and> (\<exists>v. compute_totals (plain_estimate [] None None) [] [] = Inr v \<and> v_area_cost v = 0)"
proof -
  have t: "list_all typed_area (areas (plain_estimate [ex_area c 100] None None))" for c
    by (simp add: plain_estimate_def ex_area_typed)
  have b: "areas_bounded (areas (plain_estimate [ex_area c 100] None None))" for c
    by (simp add: plain_estimate_def ex_area_bounded)
  have c: "spec_area_cost (areas (plain_estimate [ex_area c 100] None None)) = 100 * spec_rate c"
    for c
    by (simp add: plain_estimate_def ex_area_cost)
  have r: "spec_rate ''Exterior'' = 15" "spec_rate ''eXTERIOR'' = 15" "spec_rate ''Utility'' = 25"
    "spec_rate ''Interior'' = 20" "spec_rate ''Garage'' = 20"
    by (simp_all add: eval_spec)
  have t0: "list_all typed_area (areas (plain_estimate [JObj [(''area_ft2'', JInt 100)]] None None))"
    "list_all typed_area (areas (plain_estimate [] None None))"
    and b0: "areas_bounded (areas (plain_estimate [JObj [(''area_ft2'', JInt 100)]] None None))"
    "areas_bounded (areas (plain_estimate [] None None))"
    by (simp_all add: eval_ex eval_spec)
  have c0: "spec_area_cost (areas (plain_estimate [JObj [(''area_ft2'', JInt 100)]] None None)) = 2000"
    "spec_area_cost (areas (plain_estimate [] None None)) = 0"
    by (simp_all add: eval_ex eval_spec)
  show ?thesis
    using area_cost_by_category[OF t b, of "''Exterior''" "[]" "[]"]
      area_cost_by_category[OF t b, of "''eXTERIOR''" "[]" "[]"]
      area_cost_by_category[OF t b, of "''Utility''" "[]" "[]"]
      area_cost_by_category[OF t b, of "''Interior''" "[]" "[]"]
      area_cost_by_category[OF t b, of "''Garage''" "[]" "[]"]
      area_cost_by_category[OF t0(1) b0(1), of "[]" "[]"]
      area_cost_by_category[OF t0(2) b0(2), of "[]" "[]"]
    by (simp add: c r c0)
qed

subsection \<open>Writing the estimate\<close>

lemma compute_totals_cong:
  assumes "areas e2 = areas e1" "active_bundles e2 = active_bundles e1"
    "profit_percentage e2 = profit_percentage e1"
    "contingency_percentage e2 = contingency_percentage e1"
  shows "compute_totals e2 ms ls = compute_totals e1 ms ls"
  unfolding compute_totals_def assms ..

lemma calculate_Inl:
  assumes "calculate_estimate_totals est ms ls = (est', Inl err)"
  shows "est' = est \<and> (\<exists>cause. compute_totals est ms ls = Inl cause
     \<and> err = Exception (''Failed to calculate estimate totals: '' @ str_exn cause))"
  using assms unfolding calculate_estimate_totals_def Let_def
  by (cases "compute_totals est ms ls") auto

lemma calculate_Inr:
  assumes "calculate_estimate_totals est ms ls = (est', Inr u)"
  shows "\<exists>v. compute_totals est ms ls = Inr v
     \<and> est' = est\<lparr>subtotal := Some (round2 (v_subtotal v)),
                  profit_amount := Some (round2 (v_profit_amount v)),
                  contingency_amount := Some (round2 (v_contingency_amount v)),
                  grand_total := Some (round2 (v_grand_total v))\<rparr>"
  using assms unfolding calculate_estimate_totals_def Let_def
  by (cases "compute_totals est ms ls") auto

text \<open>
  Claim C7. When the recomputation fails, the caller gets one exception whose message is
  \<^verbatim>\<open>Failed to calculate estimate totals: \<close> followed by the message of the exception that
  caused the failure, and the estimate is as it was before the call: none of the four
  computed fields has been written. When it succeeds, all four fields have been written.
\<close>

theorem recompute_all_or_nothing:
  "(calculate_estimate_totals est materials labor_items = (est', Inl err) \<longrightarrow>
      est' = est
      \<and> (\<exists>cause. compute_totals est materials labor_items = Inl cause
           \<and> err = Exception (''Failed to calculate estimate totals: '' @ str_exn cause)))
   \<and> (calculate_estimate_totals est materials labor_items = (est', Inr ()) \<longrightarrow>
      (\<exists>v. compute_totals est materials labor_items = Inr v
           \<and> est' = est\<lparr>subtotal := Some (round2 (v_subtotal v)),
                        profit_amount := Some (round2 (v_profit_amount v)),
                        contingency_amount := Some (round2 (v_contingency_amount v)),
                        grand_total := Some (round2 (v_grand_total v))\<rparr>))"
  using calculate_Inl[of est materials labor_items est' err]
    calculate_Inr[of est materials labor_items est' "()"]
  by blast

lemma bad_compute:
  "compute_totals bad_estimate [] [ex_labor (Some 1000)]
     = Inl (AttributeError (quote ''NoneType'' @ '' object has no attribute '' @ quote ''lower''))"
  by (simp add: bad_estimate_def eval_code no_attribute_def)

lemma bad_calculate:
  "calculate_estimate_totals bad_estimate [] [ex_labor (Some 1000)]
     = (bad_estimate, Inl (Exception (''Failed to calculate estimate totals: ''
          @ quote ''NoneType'' @ '' object has no attribute '' @ quote ''lower'')))"
  by (simp add: calculate_estimate_totals_def bad_compute)

lemma good_calculate:
  "calculate_estimate_totals ex_estimate ex_materials [ex_labor (Some 300)]
     = (ex_estimate\<lparr>subtotal := Some 2000, profit_amount := Some 300,
          contingency_amount := Some 230, grand_total := Some 2530\<rparr>, Inr ())"
  by (simp add: calculate_estimate_totals_def eval_code eval_ex round2_def)

text \<open>
  A \<^verbatim>\<open>null\<close> category fails with the message of the \<^verbatim>\<open>AttributeError\<close> and leaves the stored
  totals alone; the end-to-end scenario writes all four.
\<close>

theorem recompute_all_or_nothing_witness:
  "calculate_estimate_totals bad_estimate [] [ex_labor (Some 1000)]
     = (bad_estimate, Inl (Exception (''Failed to calculate estimate totals: ''
          @ quote ''NoneType'' @ '' object has no attribute '' @ quote ''lower'')))
   \<and> (\<exists>cause. compute_totals bad_estimate [] [ex_labor (Some 1000)] = Inl cause
        \<and> str_exn cause = quote ''NoneType'' @ '' object has no attribute '' @ quote ''lower'')
   \<and> calculate_estimate_totals ex_estimate ex_materials [ex_labor (Some 300)]
     = (ex_estimate\<lparr>subtotal := Some 2000, profit_amount := Some 300,
          contingency_amount := Some 230, grand_total := Some 2530\<rparr>, Inr ())
   \<and> (\<exists>v. compute_totals ex_estimate ex_materials [ex_labor (Some 300)] = Inr v
        \<and> round2 (v_subtotal v) = 2000 \<and> round2 (v_grand_total v) = 2530)"
proof -
  note a = recompute_all_or_nothing[of bad_estimate "[]" "[ex_labor (Some 1000)]" bad_estimate
      "Exception (''Failed to calculate estimate totals: ''
          @ quote ''NoneType'' @ '' object has no attribute '' @ quote ''lower'')"]
  note b = recompute_all_or_nothing[of ex_estimate ex_materials "[ex_labor (Some 300)]"
      "ex_estimate\<lparr>subtotal := Some 2000, profit_amount := Some 300,
          contingency_amount := Some 230, grand_total := Some 2530\<rparr>"]
  from a bad_calculate have 1: "\<exists>cause. compute_totals bad_estimate [] [ex_labor (Some 1000)] = Inl cause
        \<and> str_exn cause = quote ''NoneType'' @ '' object has no attribute '' @ quote ''lower''"
    by auto
  from b good_calculate obtain v where v: "compute_totals ex_estimate ex_materials [ex_labor (Some 300)] = Inr v"
    and e: "ex_estimate\<lparr>subtotal := Some 2000, profit_amount := Some 300,
          contingency_amount := Some 230, grand_total := Some 2530\<rparr>
       = ex_estimate\<lparr>subtotal := Some (round2 (v_subtotal v)),
                        profit_amount := Some (round2 (v_profit_amount v)),
                        contingency_amount := Some (round2 (v_contingency_amount v)),
                        grand_total := Some (round2 (v_grand_total v))\<rparr>"
    by blast
  from e have "subtotal (ex_estimate\<lparr>subtotal := Some 2000, profit_amount := Some 300,
          contingency_amount := Some 230, grand_total := Some 2530\<rparr>) = Some (round2 (v_subtotal v))"
    "grand_total (ex_estimate\<lparr>subtotal := Some 2000, profit_amount := Some 300,
          contingency_amount := Some 230, grand_total := Some 2530\<rparr>) = Some (round2 (v_grand_total v))"
    by simp_all
  then have 2: "round2 (v_subtotal v) = 2000 \<and> round2 (v_grand_total v) = 2530"
    by simp
  from bad_calculate 1 good_calculate v 2 show ?thesis
    by blast
qed

text \<open>
  Claim C9. Recomputing an estimate that has just been recomputed, with the same line
  items, area records and settings, returns the same estimate and the same outcome: the
  four stored fields are those of the single call.
\<close>

theorem recompute_idempotent:
  "calculate_estimate_totals (fst (calculate_estimate_totals est materials labor_items))
       materials labor_items
     = calculate_estimate_totals est materials labor_items"
proof (cases "compute_totals est materials labor_items")
  case (Inl e)
  then show ?thesis
    by (simp add: calculate_estimate_totals_def)
next
  case (Inr v)
  let ?e = "est\<lparr>subtotal := Some (round2 (v_subtotal v)),
                  profit_amount := Some (round2 (v_profit_amount v)),
                  contingency_amount := Some (round2 (v_contingency_amount v)),
                  grand_total := Some (round2 (v_grand_total v))\<rparr>"
  have "compute_totals ?e materials labor_items = compute_totals est materials labor_items"
    by (rule compute_totals_cong) simp_all
  with Inr show ?thesis
    by (simp add: calculate_estimate_totals_def)
qed

subsection \<open>Rounding\<close>

lemma round2_two_decimals: "two_decimals (round2 x)"
  by (simp add: two_decimals_def round2_def Let_def)

lemma round2_close: "\<bar>round2 x - x\<bar> \<le> 1 / 200"
proof -
  define y where "y = x * 100"
  define f where "f = \<lfloor>y\<rfloor>"
  have b: "of_int f \<le> y" "y < of_int f + 1"
    unfolding f_def by linarith+
  have x: "x = y / 100"
    by (simp add: y_def)
  have "\<bar>of_int (if y - of_int f < 1/2 then f else if 1/2 < y - of_int f then f + 1
            else if even f then f else f + 1) - y\<bar> \<le> 1 / 2"
    using b by auto
  then have "\<bar>round2 x * 100 - y\<bar> \<le> 1 / 2"
    by (simp add: round2_def Let_def y_def f_def)
  then show ?thesis
    unfolding x by (simp add: abs_le_iff field_simps)
qed

text \<open>
  Claim C8. When the recomputation succeeds, each of the four stored fields is the
  computed value rounded to two decimal places: it is a whole number of hundredths, at
  most half a hundredth away from the value computed, whatever precision that value has.
\<close>

theorem stored_fields_two_decimals:
  assumes "calculate_estimate_totals est materials labor_items = (est', Inr ())"
  shows "\<exists>v. compute_totals est materials labor_items = Inr v
     \<and> subtotal est' = Some (round2 (v_subtotal v))
     \<and> profit_amount est' = Some (round2 (v_profit_amount v))
     \<and> contingency_amount est' = Some (round2 (v_contingency_amount v))
     \<and> grand_total est' = Some (round2 (v_grand_total v))
     \<and> two_decimals (round2 (v_subtotal v)) \<and> \<bar>round2 (v_subtotal v) - v_subtotal v\<bar> \<le> 1 / 200
     \<and> two_decimals (round2 (v_profit_amount v))
     \<and> \<bar>round2 (v_profit_amount v) - v_profit_amount v\<bar> \<le> 1 / 200
     \<and> two_decimals (round2 (v_contingency_amount v))
     \<and> \<bar>round2 (v_contingency_amount v) - v_contingency_amount v\<bar> \<le> 1 / 200
     \<and> two_decimals (round2 (v_grand_total v))
     \<and> \<bar>round2 (v_grand_total v) - v_grand_total v\<bar> \<le> 1 / 200"
proof -
  from calculate_Inr[OF assms] obtain v where v: "compute_totals est materials labor_items = Inr v"
    and e: "est' = est\<lparr>subtotal := Some (round2 (v_subtotal v)),
                  profit_amount := Some (round2 (v_profit_amount v)),
                  contingency_amount := Some (round2 (v_contingency_amount v)),
                  grand_total := Some (round2 (v_grand_total v))\<rparr>"
    by blast
  from e have "subtotal est' = Some (round2 (v_subtotal v))"
    "profit_amount est' = Some (round2 (v_profit_amount v))"
    "contingency_amount est' = Some (round2 (v_contingency_amount v))"
    "grand_total est' = Some (round2 (v_grand_total v))"
    by simp_all
  with v show ?thesis
    using round2_two_decimals round2_close by blast
qed

lemma fine_compute:
  "compute_totals (plain_estimate [] (Some 15) (Some 10)) [] [ex_labor (Some (81/8))]
     = Inr \<lparr>v_material_total = 0, v_labor_total = 81/8, v_area_cost = 0, v_subtotal = 81/8,
        v_profit_amount = 243/160, v_contingency_amount = 1863/1600, v_grand_total = 20493/1600\<rparr>"
  by (simp add: eval_code eval_ex Let_def)

lemma fine_calculate:
  "calculate_estimate_totals (plain_estimate [] (Some 15) (Some 10)) [] [ex_labor (Some (81/8))]
     = ((plain_estimate [] (Some 15) (Some 10))
          \<lparr>subtotal := Some (1012/100), profit_amount := Some (152/100),
           contingency_amount := Some (116/100), grand_total := Some (1281/100)\<rparr>, Inr ())"
  unfolding calculate_estimate_totals_def fine_compute by (simp add: round2_def)

text \<open>
  A labor cost of 10.125 gives the computed grand total 12.808125; 10.12 and 12.81 are
  stored.
\<close>

theorem stored_fields_two_decimals_witness:
  "calculate_estimate_totals (plain_estimate [] (Some 15) (Some 10)) [] [ex_labor (Some (81/8))]
     = ((plain_estimate [] (Some 15) (Some 10))
          \<lparr>subtotal := Some (1012/100), profit_amount := Some (152/100),
           contingency_amount := Some (116/100), grand_total := Some (1281/100)\<rparr>, Inr ())
   \<and> (\<exists>v. compute_totals (plain_estimate [] (Some 15) (Some 10)) [] [ex_labor (Some (81/8))] = Inr v
        \<and> v_subtotal v = 81/8 \<and> v_grand_total v = 20493/1600
        \<and> round2 (v_subtotal v) = 1012/100 \<and> two_decimals (round2 (v_subtotal v))
        \<and> round2 (v_grand_total v) = 1281/100 \<and> two_decimals (round2 (v_grand_total v)))"
proof -
  from stored_fields_two_decimals[OF fine_calculate] obtain v
    where v: "compute_totals (plain_estimate [] (Some 15) (Some 10)) [] [ex_labor (Some (81/8))] = Inr v"
      and s: "subtotal ((plain_estimate [] (Some 15) (Some 10))
          \<lparr>subtotal := Some (1012/100), profit_amount := Some (152/100),
           contingency_amount := Some (116/100), grand_total := Some (1281/100)\<rparr>)
           = Some (round2 (v_subtotal v))"
      and g: "grand_total ((plain_estimate [] (Some 15) (Some 10))
          \<lparr>subtotal := Some (1012/100), profit_amount := Some (152/100),
           contingency_amount := Some (116/100), grand_total := Some (1281/100)\<rparr>)
           = Some (round2 (v_grand_total v))"
      and t: "two_decimals (round2 (v_subtotal v))" "two_decimals (round2 (v_grand_total v))"
    by blast
  from v fine_compute
  have "v = \<lparr>v_material_total = 0, v_labor_total = 81/8, v_area_cost = 0, v_subtotal = 81/8,
        v_profit_amount = 243/160, v_contingency_amount = 1863/1600, v_grand_total = 20493/1600\<rparr>"
    by simp
  then have "v_subtotal v = 81/8" "v_grand_total v = 20493/1600"
    by simp_all
  moreover from s g have "round2 (v_subtotal v) = 1012/100" "round2 (v_grand_total v) = 1281/100"
    by simp_all
  ultimately show ?thesis
    using fine_calculate v t by blast
qed

subsection \<open>The default percentages\<close>

text \<open>
  Claim C4. The specification wants the defaults 15.0 and 10.0 applied only to a
  percentage that is unset, and a percentage of 0 used as given. The function does not do
  that: with both percentages set to 0 and a subtotal of 1000.00 it stores the profit
  150.00, the contingency 115.00 and the grand total 1265.00, not 0.00, 0.00 and 1000.00.
\<close>

theorem zero_percentage_replaced_by_default:
  "calculate_estimate_totals zero_profit_estimate [] [ex_labor (Some 1000)]
     = (zero_profit_estimate\<lparr>subtotal := Some 1000, profit_amount := Some 150,
          contingency_amount := Some 115, grand_total := Some 1265\<rparr>, Inr ())"
  by (simp add: calculate_estimate_totals_def zero_profit_estimate_def eval_code eval_ex round2_def)

text \<open>
  The rest of the claim holds: a percentage that is set and not 0 is used as given, in
  range or not, and an unset one is replaced by its default.
\<close>

lemma set_percentage_used:
  assumes "compute_totals est ms ls = Inr v"
    and "profit_percentage est = Some p" "p \<noteq> 0"
    and "contingency_percentage est = Some c" "c \<noteq> 0"
  shows "v_profit_amount v = v_subtotal v * (p / 100)
       \<and> v_contingency_amount v = (v_subtotal v + v_profit_amount v) * (c / 100)"
  using compute_totals_InrD[OF assms(1)] assms(2-) by auto

lemma unset_percentage_default:
  assumes "compute_totals est ms ls = Inr v"
    and "profit_percentage est = None" "contingency_percentage est = None"
  shows "v_profit_amount v = v_subtotal v * (15 / 100)
       \<and> v_contingency_amount v = (v_subtotal v + v_profit_amount v) * (10 / 100)"
  using compute_totals_InrD[OF assms(1)] assms(2-) by auto

subsection \<open>The report\<close>

lemma breakdown_materials_shape:
  "\<exists>G. breakdown_materials active bd ms =
     bd\<lparr>b_materials := G,
        b_totals := (b_totals bd)
          \<lparr>t_materials := material_loop active (t_materials (b_totals bd)) ms\<rparr>\<rparr>"
proof (induction ms arbitrary: bd)
  case Nil
  show ?case
    by (rule exI[of _ "b_materials bd"]) simp
next
  case (Cons m ms)
  show ?case
  proof (cases "bundle_included active (m_bundle m)")
    case True
    from Cons[of "bd\<lparr>b_materials :=
                  append_to_group (str_or (m_bundle m) ''Miscellaneous'')
                    \<lparr>me_name = m_name m,
                     me_quantity = m_quantity m,
                     me_unit = m_unit m,
                     me_unit_cost = m_unit_cost m,
                     me_total_cost = m_total_cost m\<rparr>
                    (b_materials bd),
                b_totals := (b_totals bd)
                  \<lparr>t_materials :=
                     t_materials (b_totals bd) + float_or (m_total_cost m) 0\<rparr>\<rparr>"]
    obtain G where "breakdown_materials active (bd\<lparr>b_materials :=
                  append_to_group (str_or (m_bundle m) ''Miscellaneous'')
                    \<lparr>me_name = m_name m,
                     me_quantity = m_quantity m,
                     me_unit = m_unit m,
                     me_unit_cost = m_unit_cost m,
                     me_total_cost = m_total_cost m\<rparr>
                    (b_materials bd),
                b_totals := (b_totals bd)
                  \<lparr>t_materials :=
                     t_materials (b_totals bd) + float_or (m_total_cost m) 0\<rparr>\<rparr>) ms
       = bd\<lparr>b_materials := G,
        b_totals := (b_totals bd)
          \<lparr>t_materials := material_loop active (t_materials (b_totals bd) + float_or (m_total_cost m) 0) ms\<rparr>\<rparr>"
      by auto
    with True show ?thesis
      by auto
  next
    case False
    with Cons[of bd] show ?thesis
      by auto
  qed
qed

lemma breakdown_labor_shape:
  "\<exists>G. breakdown_labor bd ls =
     bd\<lparr>b_labor := G,
        b_totals := (b_totals bd)\<lparr>t_labor := labor_loop (t_labor (b_totals bd)) ls\<rparr>\<rparr>"
proof (induction ls arbitrary: bd)
  case Nil
  show ?case
    by (rule exI[of _ "b_labor bd"]) simp
next
  case (Cons l ls)
  from Cons[of "bd\<lparr>b_labor :=
             append_to_group (str_or (l_category l) ''General Labor'')
               \<lparr>le_task = l_task l,
                le_hours = l_hours l,
                le_hourly_rate = l_hourly_rate l,
                le_total_cost = l_total_cost l\<rparr>
               (b_labor bd),
           b_totals := (b_totals bd)
             \<lparr>t_labor := t_labor (b_totals bd) + float_or (l_total_cost l) 0\<rparr>\<rparr>"]
  show ?case
    by auto
qed


lemma is_hashable_dict_key: "is_hashable r \<longleftrightarrow> (\<exists>k. dict_key r = Inr k)"
  by (cases r) simp_all

lemma report_area_step:
  assumes "report_area a"
  shows "\<exists>k. room_key a = Inr k
     \<and> breakdown_areas bd (a # rest) =
         breakdown_areas
           (bd\<lparr>b_area_costs := AList.update k (spec_area_entry a) (b_area_costs bd),
               b_totals := (b_totals bd)
                 \<lparr>t_area_costs := t_area_costs (b_totals bd) + spec_record_cost a\<rparr>\<rparr>)
           rest"
proof -
  from assms have pa: "priced_area a"
    by (simp add: report_area_def)
  then have ta: "typed_area a"
    by (simp add: priced_area_def)
  then have d: "is_dict a"
    by (simp add: typed_area_def)
  from assms have h: "case area_field a ''room'' of None \<Rightarrow> True | Some r \<Rightarrow> is_hashable r"
    by (simp add: report_area_def)
  obtain k where k: "dict_key (case area_field a ''room'' of None \<Rightarrow> JStr ''Unknown'' | Some v \<Rightarrow> v)
      = Inr k" "room_key a = Inr k"
    using h by (cases "area_field a ''room''") (auto simp: room_key_def is_hashable_dict_key)
  have g1: "dict_get a ''area_ft2'' (JInt 0)
      = Inr (case area_field a ''area_ft2'' of None \<Rightarrow> JInt 0 | Some v \<Rightarrow> v)"
    and g3: "dict_get a ''room'' (JStr ''Unknown'')
      = Inr (case area_field a ''room'' of None \<Rightarrow> JStr ''Unknown'' | Some v \<Rightarrow> v)"
    by (simp_all add: dict_get_field[OF d])
  have "breakdown_areas bd (a # rest) =
         breakdown_areas
           (bd\<lparr>b_area_costs := AList.update k (spec_area_entry a) (b_area_costs bd),
               b_totals := (b_totals bd)
                 \<lparr>t_area_costs := t_area_costs (b_totals bd) + spec_record_cost a\<rparr>\<rparr>)
           rest"
    by (simp add: g1 priced_area_category[OF ta] g3 priced_area_mul[OF pa] k(1)
        spec_record_cost_def spec_area_entry_def psf_rate_lower)
  with k(2) show ?thesis
    by blast
qed

lemma breakdown_areas_Inr_head:
  assumes "breakdown_areas bd (a # rest) = Inr bd'"
  shows "report_area a"
proof -
  from assms obtain n c r s x k where
    g1: "dict_get a ''area_ft2'' (JInt 0) = Inr n" and
    g2: "dict_get a ''category'' (JStr ''Interior'') = Inr c" and
    g3: "dict_get a ''room'' (JStr ''Unknown'') = Inr r" and
    g4: "str_lower c = Inr s" and
    g5: "py_mul_float n (psf_rate s) = Inr x" and
    g6: "dict_key r = Inr k"
    by (auto split: sum.splits)
  from g1 have d: "is_dict a"
    by (rule dict_get_Inr)
  from g1 g2 g3 have
    "n = (case area_field a ''area_ft2'' of None \<Rightarrow> JInt 0 | Some v \<Rightarrow> v)"
    "c = (case area_field a ''category'' of None \<Rightarrow> JStr ''Interior'' | Some v \<Rightarrow> v)"
    "r = (case area_field a ''room'' of None \<Rightarrow> JStr ''Unknown'' | Some v \<Rightarrow> v)"
    by (simp_all add: dict_get_field[OF d])
  with str_lower_Inr[OF g4] py_mul_float_Inr[OF g5] g6 d show ?thesis
    by (auto simp: report_area_def priced_area_def typed_area_def area_in_range_def
        is_hashable_dict_key split: option.splits)
qed

lemma breakdown_areas_Inr_report:
  "breakdown_areas bd as = Inr bd' \<Longrightarrow> list_all report_area as"
proof (induction as arbitrary: bd)
  case Nil
  then show ?case
    by simp
next
  case (Cons a as)
  from breakdown_areas_Inr_head[OF Cons.prems] have r: "report_area a" .
  from report_area_step[OF r, of bd as] Cons.prems Cons.IH show ?case
    using r by auto
qed

lemma last_entry_Nil: "last_entry k [] = None"
  by (simp add: last_entry_def)

lemma last_entry_Cons:
  "last_entry k (a # as) =
     (case last_entry k as of
        None \<Rightarrow> (if room_key a = Inr k then Some (spec_area_entry a) else None)
      | Some e \<Rightarrow> Some e)"
  by (simp add: last_entry_def split: list.splits)

lemma breakdown_areas_result:
  assumes "list_all report_area as"
  shows "\<exists>A. breakdown_areas bd as =
           Inr (bd\<lparr>b_area_costs := A,
                   b_totals := (b_totals bd)
                     \<lparr>t_area_costs := t_area_costs (b_totals bd) + spec_area_cost as\<rparr>\<rparr>)
     \<and> (\<forall>k. map_of A k =
           (case last_entry k as of None \<Rightarrow> map_of (b_area_costs bd) k | Some e \<Rightarrow> Some e))
     \<and> (distinct (map fst (b_area_costs bd)) \<longrightarrow> distinct (map fst A))"
  using assms
proof (induction as arbitrary: bd)
  case Nil
  show ?case
    by (rule exI[of _ "b_area_costs bd"]) (simp add: spec_area_cost_def last_entry_Nil)
next
  case (Cons a as)
  then have r: "report_area a" and rs: "list_all report_area as"
    by simp_all
  from report_area_step[OF r, of bd as] obtain k0 where k0: "room_key a = Inr k0"
    and step: "breakdown_areas bd (a # as) =
         breakdown_areas
           (bd\<lparr>b_area_costs := AList.update k0 (spec_area_entry a) (b_area_costs bd),
               b_totals := (b_totals bd)
                 \<lparr>t_area_costs := t_area_costs (b_totals bd) + spec_record_cost a\<rparr>\<rparr>)
           as"
    by blast
  let ?bd1 = "bd\<lparr>b_area_costs := AList.update k0 (spec_area_entry a) (b_area_costs bd),
               b_totals := (b_totals bd)
                 \<lparr>t_area_costs := t_area_costs (b_totals bd) + spec_record_cost a\<rparr>\<rparr>"
  from Cons.IH[OF rs, of ?bd1] obtain A where
    A1: "breakdown_areas ?bd1 as =
           Inr (?bd1\<lparr>b_area_costs := A,
                   b_totals := (b_totals ?bd1)
                     \<lparr>t_area_costs := t_area_costs (b_totals ?bd1) + spec_area_cost as\<rparr>\<rparr>)"
    and A2: "\<forall>k. map_of A k =
           (case last_entry k as of None \<Rightarrow> map_of (b_area_costs ?bd1) k | Some e \<Rightarrow> Some e)"
    and A3: "distinct (map fst (b_area_costs ?bd1)) \<longrightarrow> distinct (map fst A)"
    by blast
  have B1: "breakdown_areas bd (a # as) =
           Inr (bd\<lparr>b_area_costs := A,
                   b_totals := (b_totals bd)
                     \<lparr>t_area_costs := t_area_costs (b_totals bd) + spec_area_cost (a # as)\<rparr>\<rparr>)"
    unfolding step A1 by (simp add: spec_area_cost_def add.assoc)
  have B2: "\<forall>k. map_of A k =
           (case last_entry k (a # as) of None \<Rightarrow> map_of (b_area_costs bd) k | Some e \<Rightarrow> Some e)"
    using A2 k0 by (auto simp: last_entry_Cons update_conv' split: option.splits)
  have B3: "distinct (map fst (b_area_costs bd)) \<longrightarrow> distinct (map fst A)"
    using A3 by (simp add: distinct_update)
  from B1 B2 B3 show ?case
    by blast
qed

subsection \<open>The report and the aggregator\<close>

lemma get_cost_breakdown_result:
  "(\<exists>b. get_cost_breakdown est ms ls = Inr b) \<longleftrightarrow> list_all report_area (areas est)"
  "get_cost_breakdown est ms ls = Inr b \<Longrightarrow>
     t_materials (b_totals b) = material_loop (active_bundles est) 0 ms
     \<and> t_labor (b_totals b) = labor_loop 0 ls
     \<and> t_area_costs (b_totals b) = spec_area_cost (areas est)
     \<and> (\<forall>k. map_of (b_area_costs b) k = last_entry k (areas est))
     \<and> distinct (map fst (b_area_costs b))
     \<and> t_subtotal (b_totals b) = subtotal est
     \<and> t_profit (b_totals b) = profit_amount est
     \<and> t_contingency (b_totals b) = contingency_amount est
     \<and> t_grand_total (b_totals b) = grand_total est"
proof -
  let ?bd0 = "\<lparr>b_materials = [], b_labor = [], b_area_costs = [],
                 b_totals = \<lparr>t_materials = 0, t_labor = 0, t_area_costs = 0,
                             t_subtotal = subtotal est,
                             t_profit = profit_amount est,
                             t_contingency = contingency_amount est,
                             t_grand_total = grand_total est\<rparr>\<rparr>"
  let ?bd1 = "breakdown_materials (active_bundles est) ?bd0 ms"
  let ?bd2 = "breakdown_labor ?bd1 ls"
  have g: "get_cost_breakdown est ms ls = breakdown_areas ?bd2 (areas est)"
    by (simp add: get_cost_breakdown_def Let_def)
  obtain G1 where G1: "?bd1 = ?bd0\<lparr>b_materials := G1,
        b_totals := (b_totals ?bd0)
          \<lparr>t_materials := material_loop (active_bundles est) (t_materials (b_totals ?bd0)) ms\<rparr>\<rparr>"
    using breakdown_materials_shape[of "active_bundles est" ?bd0 ms] by blast
  obtain G2 where G2: "?bd2 = ?bd1\<lparr>b_labor := G2,
        b_totals := (b_totals ?bd1)\<lparr>t_labor := labor_loop (t_labor (b_totals ?bd1)) ls\<rparr>\<rparr>"
    using breakdown_labor_shape[of ?bd1 ls] by blast
  have bd2: "b_area_costs ?bd2 = []" "t_materials (b_totals ?bd2) = material_loop (active_bundles est) 0 ms"
    "t_labor (b_totals ?bd2) = labor_loop 0 ls" "t_area_costs (b_totals ?bd2) = 0"
    "t_subtotal (b_totals ?bd2) = subtotal est" "t_profit (b_totals ?bd2) = profit_amount est"
    "t_contingency (b_totals ?bd2) = contingency_amount est"
    "t_grand_total (b_totals ?bd2) = grand_total est"
    unfolding G2 unfolding G1 by simp_all
  show "(\<exists>b. get_cost_breakdown est ms ls = Inr b) \<longleftrightarrow> list_all report_area (areas est)"
    unfolding g using breakdown_areas_Inr_report[of ?bd2 "areas est"]
      breakdown_areas_result[of "areas est" ?bd2] by blast
  assume b: "get_cost_breakdown est ms ls = Inr b"
  then have r: "list_all report_area (areas est)"
    unfolding g by (rule breakdown_areas_Inr_report)
  from breakdown_areas_result[OF r, of ?bd2] b obtain A where
    A1: "b = ?bd2\<lparr>b_area_costs := A,
                   b_totals := (b_totals ?bd2)
                     \<lparr>t_area_costs := t_area_costs (b_totals ?bd2) + spec_area_cost (areas est)\<rparr>\<rparr>"
    and A2: "\<forall>k. map_of A k =
           (case last_entry k (areas est) of None \<Rightarrow> map_of (b_area_costs ?bd2) k | Some e \<Rightarrow> Some e)"
    and A3: "distinct (map fst (b_area_costs ?bd2)) \<longrightarrow> distinct (map fst A)"
    unfolding g by auto
  have s: "b_area_costs b = A" "t_materials (b_totals b) = t_materials (b_totals ?bd2)"
    "t_labor (b_totals b) = t_labor (b_totals ?bd2)"
    "t_area_costs (b_totals b) = t_area_costs (b_totals ?bd2) + spec_area_cost (areas est)"
    "t_subtotal (b_totals b) = t_subtotal (b_totals ?bd2)"
    "t_profit (b_totals b) = t_profit (b_totals ?bd2)"
    "t_contingency (b_totals b) = t_contingency (b_totals ?bd2)"
    "t_grand_total (b_totals b) = t_grand_total (b_totals ?bd2)"
    unfolding A1 by simp_all
  from A2 A3 show "t_materials (b_totals b) = material_loop (active_bundles est) 0 ms
     \<and> t_labor (b_totals b) = labor_loop 0 ls
     \<and> t_area_costs (b_totals b) = spec_area_cost (areas est)
     \<and> (\<forall>k. map_of (b_area_costs b) k = last_entry k (areas est))
     \<and> distinct (map fst (b_area_costs b))
     \<and> t_subtotal (b_totals b) = subtotal est
     \<and> t_profit (b_totals b) = profit_amount est
     \<and> t_contingency (b_totals b) = contingency_amount est
     \<and> t_grand_total (b_totals b) = grand_total est"
    unfolding s bd2 by (auto split: option.splits)
qed

text \<open>
  Claim C5. For a report that has been returned: whenever the recomputation on the same
  estimate, materials and labor items reaches its result, the three totals of the report
  (materials, labor, area costs) are equal to the material total, the labor total and the
  area cost computed there; and it does reach its result when the magnitudes of the
  integer areas add up to less than the largest \<^verbatim>\<open>float\<close>. Both functions select the materials
  by the same rule.
\<close>

theorem breakdown_totals_agree:
  assumes "get_cost_breakdown est materials labor_items = Inr b"
  shows "(\<forall>v. compute_totals est materials labor_items = Inr v \<longrightarrow>
            t_materials (b_totals b) = v_material_total v
          \<and> t_labor (b_totals b) = v_labor_total v
          \<and> t_area_costs (b_totals b) = v_area_cost v)
     \<and> (areas_bounded (areas est) \<longrightarrow>
          (\<exists>v. compute_totals est materials labor_items = Inr v))"
proof -
  have "t_materials (b_totals b) = v_material_total v
          \<and> t_labor (b_totals b) = v_labor_total v
          \<and> t_area_costs (b_totals b) = v_area_cost v"
    if v: "compute_totals est materials labor_items = Inr v" for v
    using compute_totals_InrD[OF v] compute_totals_area_cost[OF v]
      get_cost_breakdown_result(2)[OF assms]
    by auto
  moreover have "\<exists>v. compute_totals est materials labor_items = Inr v"
    if bd: "areas_bounded (areas est)"
  proof -
    from assms have "list_all report_area (areas est)"
      using get_cost_breakdown_result(1)[of est materials labor_items] by blast
    then have "list_all typed_area (areas est)"
      by (simp add: list_all_iff report_area_def priced_area_def)
    from compute_totals_succeeds[OF this bd] show ?thesis .
  qed
  ultimately show ?thesis
    by blast
qed

text \<open>
  The bound is needed: on two integer areas that fit one by one but not added up, followed
  by a \<^verbatim>\<open>float\<close> area, the report is returned and the sum of line 29 raises.
\<close>

lemma aggregator_raises_where_report_returned:
  "compute_totals wide_estimate [] [] =
     Inl (OverflowError ''int too large to convert to float'')
   \<and> (\<exists>b. get_cost_breakdown wide_estimate [] [] = Inr b)"
proof -
  have "compute_totals wide_estimate [] [] =
     Inl (OverflowError ''int too large to convert to float'')"
    by (simp add: wide_estimate_def eval_code eval_ex)
  moreover have "list_all report_area (areas wide_estimate)"
    by (simp add: wide_estimate_def eval_ex report_area_def eval_spec)
  ultimately show ?thesis
    using get_cost_breakdown_result(1)[of wide_estimate "[]" "[]"] by blast
qed

lemma ex_breakdown:
  "get_cost_breakdown ex_estimate ex_materials [ex_labor (Some 300)] =
     Inr \<lparr>b_materials =
            [(''Kitchen'', [\<lparr>me_name = ''item'', me_quantity = None, me_unit = None,
                             me_unit_cost = None, me_total_cost = Some 500\<rparr>]),
             (''Miscellaneous'', [\<lparr>me_name = ''item'', me_quantity = None, me_unit = None,
                             me_unit_cost = None, me_total_cost = Some 200\<rparr>])],
          b_labor =
            [(''General Labor'', [\<lparr>le_task = ''task'', le_hours = None, le_hourly_rate = None,
                             le_total_cost = Some 300\<rparr>])],
          b_area_costs =
            [(KStr ''Hall'', \<lparr>ae_area_ft2 = JInt 50, ae_psf_rate = 20, ae_total_cost = 1000,
                             ae_category = JStr ''Interior''\<rparr>)],
          b_totals = \<lparr>t_materials = 700, t_labor = 300, t_area_costs = 1000,
                      t_subtotal = Some 0, t_profit = Some 0, t_contingency = Some 0,
                      t_grand_total = Some 0\<rparr>\<rparr>"
  by (simp add: get_cost_breakdown_def eval_code eval_ex append_to_group_def)

text \<open>On the end-to-end scenario both give 700.00, 300.00 and 1000.00.\<close>

theorem breakdown_totals_agree_witness:
  "\<exists>b v. get_cost_breakdown ex_estimate ex_materials [ex_labor (Some 300)] = Inr b
     \<and> areas_bounded (areas ex_estimate)
     \<and> compute_totals ex_estimate ex_materials [ex_labor (Some 300)] = Inr v
     \<and> t_materials (b_totals b) = 700 \<and> v_material_total v = 700
     \<and> t_labor (b_totals b) = 300 \<and> v_labor_total v = 300
     \<and> t_area_costs (b_totals b) = 1000 \<and> v_area_cost v = 1000"
proof -
  have bd: "areas_bounded (areas ex_estimate)"
    by (simp add: eval_ex eval_spec)
  with breakdown_totals_agree[OF ex_breakdown] obtain v
    where v: "compute_totals ex_estimate ex_materials [ex_labor (Some 300)] = Inr v"
    by blast
  with breakdown_totals_agree[OF ex_breakdown] ex_breakdown bd show ?thesis
    by auto
qed

subsection \<open>When the report is returned\<close>

text \<open>
  Claim C6 says that the report is returned for every estimate, malformed fields being
  replaced by defaults. It is not: an area record whose category is \<^verbatim>\<open>null\<close> ends the
  function with an \<^verbatim>\<open>AttributeError\<close>.
\<close>

theorem breakdown_raises_on_null_category:
  "get_cost_breakdown bad_estimate [] [] =
     Inl (AttributeError (quote ''NoneType'' @ '' object has no attribute '' @ quote ''lower''))"
  by (simp add: get_cost_breakdown_def bad_estimate_def no_attribute_def)

text \<open>Nor is it returned for an integer area that no \<^verbatim>\<open>float\<close> can hold.\<close>

lemma breakdown_raises_on_huge_area:
  "get_cost_breakdown huge_estimate [] [] =
     Inl (OverflowError ''int too large to convert to float'')"
  by (simp add: get_cost_breakdown_def huge_estimate_def eval_code eval_ex)

lemma empty_record_report: "report_area (JObj [])"
  by (simp add: report_area_def priced_area_def area_in_range_def typed_area_def
      area_field_def)

lemma empty_record_entry:
  "last_entry (KStr ''Unknown'') [JObj []] =
     Some \<lparr>ae_area_ft2 = JInt 0, ae_psf_rate = 20, ae_total_cost = 0,
           ae_category = JStr ''Interior''\<rparr>"
  by (simp add: last_entry_def room_key_def spec_area_entry_def eval_spec)

text \<open>
  Claim C6, amended. The report is returned exactly when every area record is an object
  whose category is a string or absent, whose area is absent or a number that is not an
  integer of magnitude \<open>2 ^ 1024 - 2 ^ 970\<close> or more, and whose room can be a key or is
  absent; materials and labor items never make it fail. An absent category counts as
  \<^verbatim>\<open>Interior\<close> at the rate 20.0, an absent area as 0 and an absent room as \<^verbatim>\<open>Unknown\<close>.
\<close>

theorem breakdown_returns_report:
  "((\<exists>b. get_cost_breakdown est materials labor_items = Inr b)
      \<longleftrightarrow> list_all report_area (areas est))
   \<and> (\<exists>b. get_cost_breakdown (est\<lparr>areas := [JObj []]\<rparr>) materials labor_items = Inr b
        \<and> map_of (b_area_costs b) (KStr ''Unknown'') =
            Some \<lparr>ae_area_ft2 = JInt 0, ae_psf_rate = 20, ae_total_cost = 0,
                  ae_category = JStr ''Interior''\<rparr>)"
proof -
  have "list_all report_area (areas (est\<lparr>areas := [JObj []]\<rparr>))"
    by (simp add: empty_record_report)
  then obtain b where b: "get_cost_breakdown (est\<lparr>areas := [JObj []]\<rparr>) materials labor_items = Inr b"
    using get_cost_breakdown_result(1) by blast
  from get_cost_breakdown_result(2)[OF b]
  have "map_of (b_area_costs b) (KStr ''Unknown'') = last_entry (KStr ''Unknown'') [JObj []]"
    by simp
  with b empty_record_entry get_cost_breakdown_result(1)[of est materials labor_items]
  show ?thesis
    by auto
qed

text \<open>
  The end-to-end scenario is reported; the estimate with the \<^verbatim>\<open>null\<close> category and the
  one with an area of \<open>10 ^ 309\<close> are not.
\<close>

theorem breakdown_returns_report_witness:
  "list_all report_area (areas ex_estimate)
   \<and> (\<exists>b. get_cost_breakdown ex_estimate ex_materials [ex_labor (Some 300)] = Inr b)
   \<and> \<not> list_all report_area (areas bad_estimate)
   \<and> \<not> (\<exists>b. get_cost_breakdown bad_estimate [] [] = Inr b)
   \<and> \<not> list_all report_area (areas huge_estimate)
   \<and> \<not> (\<exists>b. get_cost_breakdown huge_estimate [] [] = Inr b)"
proof -
  have 1: "list_all report_area (areas ex_estimate)"
    by (simp add: eval_ex report_area_def eval_spec)
  have 2: "\<not> list_all report_area (areas bad_estimate)"
    by (simp add: bad_estimate_def report_area_def eval_spec)
  have 3: "\<not> list_all report_area (areas huge_estimate)"
    by (simp add: huge_estimate_def eval_ex report_area_def eval_spec)
  from 1 2 3 breakdown_returns_report[of ex_estimate ex_materials "[ex_labor (Some 300)]"]
    breakdown_returns_report[of bad_estimate "[]" "[]"]
    breakdown_returns_report[of huge_estimate "[]" "[]"]
  show ?thesis
    by blast
qed

subsection \<open>Area entries that share a room\<close>

lemma dup_breakdown:
  "get_cost_breakdown dup_estimate [] [] =
     Inr \<lparr>b_materials = [], b_labor = [],
          b_area_costs =
            [(KStr ''Kitchen'', \<lparr>ae_area_ft2 = JInt 50, ae_psf_rate = 15, ae_total_cost = 750,
                             ae_category = JStr ''Exterior''\<rparr>),
             (KStr ''Unknown'', \<lparr>ae_area_ft2 = JInt 10, ae_psf_rate = 25, ae_total_cost = 250,
                             ae_category = JStr ''Utility''\<rparr>)],
          b_totals = \<lparr>t_materials = 0, t_labor = 0, t_area_costs = 3000,
                      t_subtotal = Some 0, t_profit = Some 0, t_contingency = Some 0,
                      t_grand_total = Some 0\<rparr>\<rparr>"
  by (simp add: get_cost_breakdown_def dup_estimate_def eval_code eval_ex)

text \<open>
  Claim C10. In a report, the entry under a key is that of the last area record with this
  room, a record without a room being filed under \<^verbatim>\<open>Unknown\<close>; there is one entry per key;
  the area-costs total is the sum over all records. So the entries need not add up to the
  total: for two records of the room \<^verbatim>\<open>Kitchen\<close> they do not.
\<close>

theorem area_entries_last_wins:
  assumes "get_cost_breakdown est materials labor_items = Inr b"
  shows "(\<forall>k. map_of (b_area_costs b) k = last_entry k (areas est))
     \<and> distinct (map fst (b_area_costs b))
     \<and> t_area_costs (b_totals b) = spec_area_cost (areas est)
     \<and> (\<exists>b'. get_cost_breakdown dup_estimate [] [] = Inr b'
          \<and> entries_sum b' \<noteq> t_area_costs (b_totals b'))"
proof -
  have "\<exists>b'. get_cost_breakdown dup_estimate [] [] = Inr b'
          \<and> entries_sum b' \<noteq> t_area_costs (b_totals b')"
    unfolding dup_breakdown by (simp add: entries_sum_def)
  with get_cost_breakdown_result(2)[OF assms] show ?thesis
    by blast
qed

text \<open>
  Two \<^verbatim>\<open>Kitchen\<close> records costing 2000.00 and 750.00 and a record without a room costing
  250.00: the entries are the 750.00 and the 250.00, the total is 3000.00.
\<close>

theorem area_entries_last_wins_witness:
  "\<exists>b. get_cost_breakdown dup_estimate [] [] = Inr b
     \<and> map_of (b_area_costs b) (KStr ''Kitchen'') =
         Some \<lparr>ae_area_ft2 = JInt 50, ae_psf_rate = 15, ae_total_cost = 750,
               ae_category = JStr ''Exterior''\<rparr>
     \<and> map_of (b_area_costs b) (KStr ''Unknown'') =
         Some \<lparr>ae_area_ft2 = JInt 10, ae_psf_rate = 25, ae_total_cost = 250,
               ae_category = JStr ''Utility''\<rparr>
     \<and> t_area_costs (b_totals b) = 3000
     \<and> entries_sum b = 1000"
proof -
  obtain b where b: "get_cost_breakdown dup_estimate [] [] = Inr b"
    using dup_breakdown by blast
  have k: "last_entry (KStr ''Kitchen'') (areas dup_estimate) =
         Some \<lparr>ae_area_ft2 = JInt 50, ae_psf_rate = 15, ae_total_cost = 750,
               ae_category = JStr ''Exterior''\<rparr>"
    and u: "last_entry (KStr ''Unknown'') (areas dup_estimate) =
         Some \<lparr>ae_area_ft2 = JInt 10, ae_psf_rate = 25, ae_total_cost = 250,
               ae_category = JStr ''Utility''\<rparr>"
    and c: "spec_area_cost (areas dup_estimate) = 3000"
    by (simp_all add: dup_estimate_def plain_estimate_def last_entry_def room_key_def
        spec_area_entry_def eval_spec)
  have e: "entries_sum b = 1000"
    using b unfolding dup_breakdown by (auto simp: entries_sum_def)
  from area_entries_last_wins[OF b] k u c e b show ?thesis
    by auto
qed

end
